theory Spec2Isabelle
  imports Main "HOL-Library.Word"
begin

unbundle bit_operations_syntax

section \<open>common.h: results, errors and value types\<close>

text \<open>
  The two result codes of every fallible entry point
  (\<^verbatim>\<open>enum WabtResult { WABT_OK, WABT_ERROR }\<close>).
\<close>

datatype WabtResult = WABT_OK | WABT_ERROR

text \<open>
  Failures are values.  \<open>AssertionFailure\<close> is a failed \<^verbatim>\<open>assert\<close>; the
  other four are the diagnostic classes of the front end.
\<close>

datatype error = AssertionFailure
  | LexError | SyntaxError | ResolutionError | TypeError

datatype WabtLabelType = WABT_LABEL_TYPE_FUNC | WABT_LABEL_TYPE_BLOCK
  | WABT_LABEL_TYPE_LOOP | WABT_LABEL_TYPE_IF | WABT_LABEL_TYPE_ELSE

text \<open>
  \<^verbatim>\<open>enum WabtType\<close>, "matches binary format, do not change".  The enumerator
  \<^verbatim>\<open>WABT_TYPE____\<close> is an alias of \<^verbatim>\<open>WABT_TYPE_VOID\<close> (same value),
  so it is not a constructor of its own; the opcode table below writes
  \<open>WABT_TYPE_VOID\<close> where the macro writes \<^verbatim>\<open>___\<close>.
\<close>

datatype WabtType = WABT_TYPE_I32 | WABT_TYPE_I64 | WABT_TYPE_F32 | WABT_TYPE_F64
  | WABT_TYPE_ANYFUNC | WABT_TYPE_FUNC | WABT_TYPE_VOID | WABT_TYPE_ANY

text \<open>The integer value the enum gives each enumerator.\<close>

fun WabtType_value :: "WabtType \<Rightarrow> int" where
  "WabtType_value WABT_TYPE_I32 = - 0x01"
| "WabtType_value WABT_TYPE_I64 = - 0x02"
| "WabtType_value WABT_TYPE_F32 = - 0x03"
| "WabtType_value WABT_TYPE_F64 = - 0x04"
| "WabtType_value WABT_TYPE_ANYFUNC = - 0x10"
| "WabtType_value WABT_TYPE_FUNC = - 0x20"
| "WabtType_value WABT_TYPE_VOID = - 0x40"
| "WabtType_value WABT_TYPE_ANY = 0"

text \<open>\<^verbatim>\<open>wabt_get_type_name\<close>: the switch over the eight enumerators.\<close>

fun wabt_get_type_name :: "WabtType \<Rightarrow> string" where
  "wabt_get_type_name WABT_TYPE_I32 = ''i32''"
| "wabt_get_type_name WABT_TYPE_I64 = ''i64''"
| "wabt_get_type_name WABT_TYPE_F32 = ''f32''"
| "wabt_get_type_name WABT_TYPE_F64 = ''f64''"
| "wabt_get_type_name WABT_TYPE_ANYFUNC = ''anyfunc''"
| "wabt_get_type_name WABT_TYPE_FUNC = ''func''"
| "wabt_get_type_name WABT_TYPE_VOID = ''void''"
| "wabt_get_type_name WABT_TYPE_ANY = ''any''"

section \<open>common.h: the opcode table\<close>

text \<open>
  One row of \<^verbatim>\<open>WABT_FOREACH_OPCODE\<close>, in the macro's column order:
  result type, first and second parameter type, memory size, code, enumerator name, text.
\<close>

type_synonym opcode_row = "WabtType \<times> WabtType \<times> WabtType \<times> int \<times> nat \<times> string \<times> string"

definition WABT_FOREACH_OPCODE :: "opcode_row list" where
  "WABT_FOREACH_OPCODE = [
  (WABT_TYPE_VOID, WABT_TYPE_VOID, WABT_TYPE_VOID, 0, 0x00, ''UNREACHABLE'', ''unreachable''),
  (WABT_TYPE_VOID, WABT_TYPE_VOID, WABT_TYPE_VOID, 0, 0x01, ''NOP'', ''nop''),
  (WABT_TYPE_VOID, WABT_TYPE_VOID, WABT_TYPE_VOID, 0, 0x02, ''BLOCK'', ''block''),
  (WABT_TYPE_VOID, WABT_TYPE_VOID, WABT_TYPE_VOID, 0, 0x03, ''LOOP'', ''loop''),
  (WABT_TYPE_VOID, WABT_TYPE_VOID, WABT_TYPE_VOID, 0, 0x04, ''IF'', ''if''),
  (WABT_TYPE_VOID, WABT_TYPE_VOID, WABT_TYPE_VOID, 0, 0x05, ''ELSE'', ''else''),
  (WABT_TYPE_VOID, WABT_TYPE_VOID, WABT_TYPE_VOID, 0, 0x0b, ''END'', ''end''),
  (WABT_TYPE_VOID, WABT_TYPE_VOID, WABT_TYPE_VOID, 0, 0x0c, ''BR'', ''br''),
  (WABT_TYPE_VOID, WABT_TYPE_VOID, WABT_TYPE_VOID, 0, 0x0d, ''BR_IF'', ''br_if''),
  (WABT_TYPE_VOID, WABT_TYPE_VOID, WABT_TYPE_VOID, 0, 0x0e, ''BR_TABLE'', ''br_table''),
  (WABT_TYPE_VOID, WABT_TYPE_VOID, WABT_TYPE_VOID, 0, 0x0f, ''RETURN'', ''return''),
  (WABT_TYPE_VOID, WABT_TYPE_VOID, WABT_TYPE_VOID, 0, 0x10, ''CALL'', ''call''),
  (WABT_TYPE_VOID, WABT_TYPE_VOID, WABT_TYPE_VOID, 0, 0x11, ''CALL_INDIRECT'', ''call_indirect''),
  (WABT_TYPE_VOID, WABT_TYPE_VOID, WABT_TYPE_VOID, 0, 0x1a, ''DROP'', ''drop''),
  (WABT_TYPE_VOID, WABT_TYPE_VOID, WABT_TYPE_VOID, 0, 0x1b, ''SELECT'', ''select''),
  (WABT_TYPE_VOID, WABT_TYPE_VOID, WABT_TYPE_VOID, 0, 0x20, ''GET_LOCAL'', ''get_local''),
  (WABT_TYPE_VOID, WABT_TYPE_VOID, WABT_TYPE_VOID, 0, 0x21, ''SET_LOCAL'', ''set_local''),
  (WABT_TYPE_VOID, WABT_TYPE_VOID, WABT_TYPE_VOID, 0, 0x22, ''TEE_LOCAL'', ''tee_local''),
  (WABT_TYPE_VOID, WABT_TYPE_VOID, WABT_TYPE_VOID, 0, 0x23, ''GET_GLOBAL'', ''get_global''),
  (WABT_TYPE_VOID, WABT_TYPE_VOID, WABT_TYPE_VOID, 0, 0x24, ''SET_GLOBAL'', ''set_global''),
  (WABT_TYPE_I32, WABT_TYPE_I32, WABT_TYPE_VOID, 4, 0x28, ''I32_LOAD'', ''i32.load''),
  (WABT_TYPE_I64, WABT_TYPE_I32, WABT_TYPE_VOID, 8, 0x29, ''I64_LOAD'', ''i64.load''),
  (WABT_TYPE_F32, WABT_TYPE_I32, WABT_TYPE_VOID, 4, 0x2a, ''F32_LOAD'', ''f32.load''),
  (WABT_TYPE_F64, WABT_TYPE_I32, WABT_TYPE_VOID, 8, 0x2b, ''F64_LOAD'', ''f64.load''),
  (WABT_TYPE_I32, WABT_TYPE_I32, WABT_TYPE_VOID, 1, 0x2c, ''I32_LOAD8_S'', ''i32.load8_s''),
  (WABT_TYPE_I32, WABT_TYPE_I32, WABT_TYPE_VOID, 1, 0x2d, ''I32_LOAD8_U'', ''i32.load8_u''),
  (WABT_TYPE_I32, WABT_TYPE_I32, WABT_TYPE_VOID, 2, 0x2e, ''I32_LOAD16_S'', ''i32.load16_s''),
  (WABT_TYPE_I32, WABT_TYPE_I32, WABT_TYPE_VOID, 2, 0x2f, ''I32_LOAD16_U'', ''i32.load16_u''),
  (WABT_TYPE_I64, WABT_TYPE_I32, WABT_TYPE_VOID, 1, 0x30, ''I64_LOAD8_S'', ''i64.load8_s''),
  (WABT_TYPE_I64, WABT_TYPE_I32, WABT_TYPE_VOID, 1, 0x31, ''I64_LOAD8_U'', ''i64.load8_u''),
  (WABT_TYPE_I64, WABT_TYPE_I32, WABT_TYPE_VOID, 2, 0x32, ''I64_LOAD16_S'', ''i64.load16_s''),
  (WABT_TYPE_I64, WABT_TYPE_I32, WABT_TYPE_VOID, 2, 0x33, ''I64_LOAD16_U'', ''i64.load16_u''),
  (WABT_TYPE_I64, WABT_TYPE_I32, WABT_TYPE_VOID, 4, 0x34, ''I64_LOAD32_S'', ''i64.load32_s''),
  (WABT_TYPE_I64, WABT_TYPE_I32, WABT_TYPE_VOID, 4, 0x35, ''I64_LOAD32_U'', ''i64.load32_u''),
  (WABT_TYPE_VOID, WABT_TYPE_I32, WABT_TYPE_I32, 4, 0x36, ''I32_STORE'', ''i32.store''),
  (WABT_TYPE_VOID, WABT_TYPE_I32, WABT_TYPE_I64, 8, 0x37, ''I64_STORE'', ''i64.store''),
  (WABT_TYPE_VOID, WABT_TYPE_I32, WABT_TYPE_F32, 4, 0x38, ''F32_STORE'', ''f32.store''),
  (WABT_TYPE_VOID, WABT_TYPE_I32, WABT_TYPE_F64, 8, 0x39, ''F64_STORE'', ''f64.store''),
  (WABT_TYPE_VOID, WABT_TYPE_I32, WABT_TYPE_I32, 1, 0x3a, ''I32_STORE8'', ''i32.store8''),
  (WABT_TYPE_VOID, WABT_TYPE_I32, WABT_TYPE_I32, 2, 0x3b, ''I32_STORE16'', ''i32.store16''),
  (WABT_TYPE_VOID, WABT_TYPE_I32, WABT_TYPE_I64, 1, 0x3c, ''I64_STORE8'', ''i64.store8''),
  (WABT_TYPE_VOID, WABT_TYPE_I32, WABT_TYPE_I64, 2, 0x3d, ''I64_STORE16'', ''i64.store16''),
  (WABT_TYPE_VOID, WABT_TYPE_I32, WABT_TYPE_I64, 4, 0x3e, ''I64_STORE32'', ''i64.store32''),
  (WABT_TYPE_I32, WABT_TYPE_VOID, WABT_TYPE_VOID, 0, 0x3f, ''CURRENT_MEMORY'', ''current_memory''),
  (WABT_TYPE_I32, WABT_TYPE_I32, WABT_TYPE_VOID, 0, 0x40, ''GROW_MEMORY'', ''grow_memory''),
  (WABT_TYPE_I32, WABT_TYPE_VOID, WABT_TYPE_VOID, 0, 0x41, ''I32_CONST'', ''i32.const''),
  (WABT_TYPE_I64, WABT_TYPE_VOID, WABT_TYPE_VOID, 0, 0x42, ''I64_CONST'', ''i64.const''),
  (WABT_TYPE_F32, WABT_TYPE_VOID, WABT_TYPE_VOID, 0, 0x43, ''F32_CONST'', ''f32.const''),
  (WABT_TYPE_F64, WABT_TYPE_VOID, WABT_TYPE_VOID, 0, 0x44, ''F64_CONST'', ''f64.const''),
  (WABT_TYPE_I32, WABT_TYPE_I32, WABT_TYPE_VOID, 0, 0x45, ''I32_EQZ'', ''i32.eqz''),
  (WABT_TYPE_I32, WABT_TYPE_I32, WABT_TYPE_I32, 0, 0x46, ''I32_EQ'', ''i32.eq''),
  (WABT_TYPE_I32, WABT_TYPE_I32, WABT_TYPE_I32, 0, 0x47, ''I32_NE'', ''i32.ne''),
  (WABT_TYPE_I32, WABT_TYPE_I32, WABT_TYPE_I32, 0, 0x48, ''I32_LT_S'', ''i32.lt_s''),
  (WABT_TYPE_I32, WABT_TYPE_I32, WABT_TYPE_I32, 0, 0x49, ''I32_LT_U'', ''i32.lt_u''),
  (WABT_TYPE_I32, WABT_TYPE_I32, WABT_TYPE_I32, 0, 0x4a, ''I32_GT_S'', ''i32.gt_s''),
  (WABT_TYPE_I32, WABT_TYPE_I32, WABT_TYPE_I32, 0, 0x4b, ''I32_GT_U'', ''i32.gt_u''),
  (WABT_TYPE_I32, WABT_TYPE_I32, WABT_TYPE_I32, 0, 0x4c, ''I32_LE_S'', ''i32.le_s''),
  (WABT_TYPE_I32, WABT_TYPE_I32, WABT_TYPE_I32, 0, 0x4d, ''I32_LE_U'', ''i32.le_u''),
  (WABT_TYPE_I32, WABT_TYPE_I32, WABT_TYPE_I32, 0, 0x4e, ''I32_GE_S'', ''i32.ge_s''),
  (WABT_TYPE_I32, WABT_TYPE_I32, WABT_TYPE_I32, 0, 0x4f, ''I32_GE_U'', ''i32.ge_u''),
  (WABT_TYPE_I32, WABT_TYPE_I64, WABT_TYPE_VOID, 0, 0x50, ''I64_EQZ'', ''i64.eqz''),
  (WABT_TYPE_I32, WABT_TYPE_I64, WABT_TYPE_I64, 0, 0x51, ''I64_EQ'', ''i64.eq''),
  (WABT_TYPE_I32, WABT_TYPE_I64, WABT_TYPE_I64, 0, 0x52, ''I64_NE'', ''i64.ne''),
  (WABT_TYPE_I32, WABT_TYPE_I64, WABT_TYPE_I64, 0, 0x53, ''I64_LT_S'', ''i64.lt_s''),
  (WABT_TYPE_I32, WABT_TYPE_I64, WABT_TYPE_I64, 0, 0x54, ''I64_LT_U'', ''i64.lt_u''),
  (WABT_TYPE_I32, WABT_TYPE_I64, WABT_TYPE_I64, 0, 0x55, ''I64_GT_S'', ''i64.gt_s''),
  (WABT_TYPE_I32, WABT_TYPE_I64, WABT_TYPE_I64, 0, 0x56, ''I64_GT_U'', ''i64.gt_u''),
  (WABT_TYPE_I32, WABT_TYPE_I64, WABT_TYPE_I64, 0, 0x57, ''I64_LE_S'', ''i64.le_s''),
  (WABT_TYPE_I32, WABT_TYPE_I64, WABT_TYPE_I64, 0, 0x58, ''I64_LE_U'', ''i64.le_u''),
  (WABT_TYPE_I32, WABT_TYPE_I64, WABT_TYPE_I64, 0, 0x59, ''I64_GE_S'', ''i64.ge_s''),
  (WABT_TYPE_I32, WABT_TYPE_I64, WABT_TYPE_I64, 0, 0x5a, ''I64_GE_U'', ''i64.ge_u''),
  (WABT_TYPE_I32, WABT_TYPE_F32, WABT_TYPE_F32, 0, 0x5b, ''F32_EQ'', ''f32.eq''),
  (WABT_TYPE_I32, WABT_TYPE_F32, WABT_TYPE_F32, 0, 0x5c, ''F32_NE'', ''f32.ne''),
  (WABT_TYPE_I32, WABT_TYPE_F32, WABT_TYPE_F32, 0, 0x5d, ''F32_LT'', ''f32.lt''),
  (WABT_TYPE_I32, WABT_TYPE_F32, WABT_TYPE_F32, 0, 0x5e, ''F32_GT'', ''f32.gt''),
  (WABT_TYPE_I32, WABT_TYPE_F32, WABT_TYPE_F32, 0, 0x5f, ''F32_LE'', ''f32.le''),
  (WABT_TYPE_I32, WABT_TYPE_F32, WABT_TYPE_F32, 0, 0x60, ''F32_GE'', ''f32.ge''),
  (WABT_TYPE_I32, WABT_TYPE_F64, WABT_TYPE_F64, 0, 0x61, ''F64_EQ'', ''f64.eq''),
  (WABT_TYPE_I32, WABT_TYPE_F64, WABT_TYPE_F64, 0, 0x62, ''F64_NE'', ''f64.ne''),
  (WABT_TYPE_I32, WABT_TYPE_F64, WABT_TYPE_F64, 0, 0x63, ''F64_LT'', ''f64.lt''),
  (WABT_TYPE_I32, WABT_TYPE_F64, WABT_TYPE_F64, 0, 0x64, ''F64_GT'', ''f64.gt''),
  (WABT_TYPE_I32, WABT_TYPE_F64, WABT_TYPE_F64, 0, 0x65, ''F64_LE'', ''f64.le''),
  (WABT_TYPE_I32, WABT_TYPE_F64, WABT_TYPE_F64, 0, 0x66, ''F64_GE'', ''f64.ge''),
  (WABT_TYPE_I32, WABT_TYPE_I32, WABT_TYPE_VOID, 0, 0x67, ''I32_CLZ'', ''i32.clz''),
  (WABT_TYPE_I32, WABT_TYPE_I32, WABT_TYPE_VOID, 0, 0x68, ''I32_CTZ'', ''i32.ctz''),
  (WABT_TYPE_I32, WABT_TYPE_I32, WABT_TYPE_VOID, 0, 0x69, ''I32_POPCNT'', ''i32.popcnt''),
  (WABT_TYPE_I32, WABT_TYPE_I32, WABT_TYPE_I32, 0, 0x6a, ''I32_ADD'', ''i32.add''),
  (WABT_TYPE_I32, WABT_TYPE_I32, WABT_TYPE_I32, 0, 0x6b, ''I32_SUB'', ''i32.sub''),
  (WABT_TYPE_I32, WABT_TYPE_I32, WABT_TYPE_I32, 0, 0x6c, ''I32_MUL'', ''i32.mul''),
  (WABT_TYPE_I32, WABT_TYPE_I32, WABT_TYPE_I32, 0, 0x6d, ''I32_DIV_S'', ''i32.div_s''),
  (WABT_TYPE_I32, WABT_TYPE_I32, WABT_TYPE_I32, 0, 0x6e, ''I32_DIV_U'', ''i32.div_u''),
  (WABT_TYPE_I32, WABT_TYPE_I32, WABT_TYPE_I32, 0, 0x6f, ''I32_REM_S'', ''i32.rem_s''),
  (WABT_TYPE_I32, WABT_TYPE_I32, WABT_TYPE_I32, 0, 0x70, ''I32_REM_U'', ''i32.rem_u''),
  (WABT_TYPE_I32, WABT_TYPE_I32, WABT_TYPE_I32, 0, 0x71, ''I32_AND'', ''i32.and''),
  (WABT_TYPE_I32, WABT_TYPE_I32, WABT_TYPE_I32, 0, 0x72, ''I32_OR'', ''i32.or''),
  (WABT_TYPE_I32, WABT_TYPE_I32, WABT_TYPE_I32, 0, 0x73, ''I32_XOR'', ''i32.xor''),
  (WABT_TYPE_I32, WABT_TYPE_I32, WABT_TYPE_I32, 0, 0x74, ''I32_SHL'', ''i32.shl''),
  (WABT_TYPE_I32, WABT_TYPE_I32, WABT_TYPE_I32, 0, 0x75, ''I32_SHR_S'', ''i32.shr_s''),
  (WABT_TYPE_I32, WABT_TYPE_I32, WABT_TYPE_I32, 0, 0x76, ''I32_SHR_U'', ''i32.shr_u''),
  (WABT_TYPE_I32, WABT_TYPE_I32, WABT_TYPE_I32, 0, 0x77, ''I32_ROTL'', ''i32.rotl''),
  (WABT_TYPE_I32, WABT_TYPE_I32, WABT_TYPE_I32, 0, 0x78, ''I32_ROTR'', ''i32.rotr''),
  (WABT_TYPE_I64, WABT_TYPE_I64, WABT_TYPE_I64, 0, 0x79, ''I64_CLZ'', ''i64.clz''),
  (WABT_TYPE_I64, WABT_TYPE_I64, WABT_TYPE_I64, 0, 0x7a, ''I64_CTZ'', ''i64.ctz''),
  (WABT_TYPE_I64, WABT_TYPE_I64, WABT_TYPE_I64, 0, 0x7b, ''I64_POPCNT'', ''i64.popcnt''),
  (WABT_TYPE_I64, WABT_TYPE_I64, WABT_TYPE_I64, 0, 0x7c, ''I64_ADD'', ''i64.add''),
  (WABT_TYPE_I64, WABT_TYPE_I64, WABT_TYPE_I64, 0, 0x7d, ''I64_SUB'', ''i64.sub''),
  (WABT_TYPE_I64, WABT_TYPE_I64, WABT_TYPE_I64, 0, 0x7e, ''I64_MUL'', ''i64.mul''),
  (WABT_TYPE_I64, WABT_TYPE_I64, WABT_TYPE_I64, 0, 0x7f, ''I64_DIV_S'', ''i64.div_s''),
  (WABT_TYPE_I64, WABT_TYPE_I64, WABT_TYPE_I64, 0, 0x80, ''I64_DIV_U'', ''i64.div_u''),
  (WABT_TYPE_I64, WABT_TYPE_I64, WABT_TYPE_I64, 0, 0x81, ''I64_REM_S'', ''i64.rem_s''),
  (WABT_TYPE_I64, WABT_TYPE_I64, WABT_TYPE_I64, 0, 0x82, ''I64_REM_U'', ''i64.rem_u''),
  (WABT_TYPE_I64, WABT_TYPE_I64, WABT_TYPE_I64, 0, 0x83, ''I64_AND'', ''i64.and''),
  (WABT_TYPE_I64, WABT_TYPE_I64, WABT_TYPE_I64, 0, 0x84, ''I64_OR'', ''i64.or''),
  (WABT_TYPE_I64, WABT_TYPE_I64, WABT_TYPE_I64, 0, 0x85, ''I64_XOR'', ''i64.xor''),
  (WABT_TYPE_I64, WABT_TYPE_I64, WABT_TYPE_I64, 0, 0x86, ''I64_SHL'', ''i64.shl''),
  (WABT_TYPE_I64, WABT_TYPE_I64, WABT_TYPE_I64, 0, 0x87, ''I64_SHR_S'', ''i64.shr_s''),
  (WABT_TYPE_I64, WABT_TYPE_I64, WABT_TYPE_I64, 0, 0x88, ''I64_SHR_U'', ''i64.shr_u''),
  (WABT_TYPE_I64, WABT_TYPE_I64, WABT_TYPE_I64, 0, 0x89, ''I64_ROTL'', ''i64.rotl''),
  (WABT_TYPE_I64, WABT_TYPE_I64, WABT_TYPE_I64, 0, 0x8a, ''I64_ROTR'', ''i64.rotr''),
  (WABT_TYPE_F32, WABT_TYPE_F32, WABT_TYPE_F32, 0, 0x8b, ''F32_ABS'', ''f32.abs''),
  (WABT_TYPE_F32, WABT_TYPE_F32, WABT_TYPE_F32, 0, 0x8c, ''F32_NEG'', ''f32.neg''),
  (WABT_TYPE_F32, WABT_TYPE_F32, WABT_TYPE_F32, 0, 0x8d, ''F32_CEIL'', ''f32.ceil''),
  (WABT_TYPE_F32, WABT_TYPE_F32, WABT_TYPE_F32, 0, 0x8e, ''F32_FLOOR'', ''f32.floor''),
  (WABT_TYPE_F32, WABT_TYPE_F32, WABT_TYPE_F32, 0, 0x8f, ''F32_TRUNC'', ''f32.trunc''),
  (WABT_TYPE_F32, WABT_TYPE_F32, WABT_TYPE_F32, 0, 0x90, ''F32_NEAREST'', ''f32.nearest''),
  (WABT_TYPE_F32, WABT_TYPE_F32, WABT_TYPE_F32, 0, 0x91, ''F32_SQRT'', ''f32.sqrt''),
  (WABT_TYPE_F32, WABT_TYPE_F32, WABT_TYPE_F32, 0, 0x92, ''F32_ADD'', ''f32.add''),
  (WABT_TYPE_F32, WABT_TYPE_F32, WABT_TYPE_F32, 0, 0x93, ''F32_SUB'', ''f32.sub''),
  (WABT_TYPE_F32, WABT_TYPE_F32, WABT_TYPE_F32, 0, 0x94, ''F32_MUL'', ''f32.mul''),
  (WABT_TYPE_F32, WABT_TYPE_F32, WABT_TYPE_F32, 0, 0x95, ''F32_DIV'', ''f32.div''),
  (WABT_TYPE_F32, WABT_TYPE_F32, WABT_TYPE_F32, 0, 0x96, ''F32_MIN'', ''f32.min''),
  (WABT_TYPE_F32, WABT_TYPE_F32, WABT_TYPE_F32, 0, 0x97, ''F32_MAX'', ''f32.max''),
  (WABT_TYPE_F32, WABT_TYPE_F32, WABT_TYPE_F32, 0, 0x98, ''F32_COPYSIGN'', ''f32.copysign''),
  (WABT_TYPE_F64, WABT_TYPE_F64, WABT_TYPE_F64, 0, 0x99, ''F64_ABS'', ''f64.abs''),
  (WABT_TYPE_F64, WABT_TYPE_F64, WABT_TYPE_F64, 0, 0x9a, ''F64_NEG'', ''f64.neg''),
  (WABT_TYPE_F64, WABT_TYPE_F64, WABT_TYPE_F64, 0, 0x9b, ''F64_CEIL'', ''f64.ceil''),
  (WABT_TYPE_F64, WABT_TYPE_F64, WABT_TYPE_F64, 0, 0x9c, ''F64_FLOOR'', ''f64.floor''),
  (WABT_TYPE_F64, WABT_TYPE_F64, WABT_TYPE_F64, 0, 0x9d, ''F64_TRUNC'', ''f64.trunc''),
  (WABT_TYPE_F64, WABT_TYPE_F64, WABT_TYPE_F64, 0, 0x9e, ''F64_NEAREST'', ''f64.nearest''),
  (WABT_TYPE_F64, WABT_TYPE_F64, WABT_TYPE_F64, 0, 0x9f, ''F64_SQRT'', ''f64.sqrt''),
  (WABT_TYPE_F64, WABT_TYPE_F64, WABT_TYPE_F64, 0, 0xa0, ''F64_ADD'', ''f64.add''),
  (WABT_TYPE_F64, WABT_TYPE_F64, WABT_TYPE_F64, 0, 0xa1, ''F64_SUB'', ''f64.sub''),
  (WABT_TYPE_F64, WABT_TYPE_F64, WABT_TYPE_F64, 0, 0xa2, ''F64_MUL'', ''f64.mul''),
  (WABT_TYPE_F64, WABT_TYPE_F64, WABT_TYPE_F64, 0, 0xa3, ''F64_DIV'', ''f64.div''),
  (WABT_TYPE_F64, WABT_TYPE_F64, WABT_TYPE_F64, 0, 0xa4, ''F64_MIN'', ''f64.min''),
  (WABT_TYPE_F64, WABT_TYPE_F64, WABT_TYPE_F64, 0, 0xa5, ''F64_MAX'', ''f64.max''),
  (WABT_TYPE_F64, WABT_TYPE_F64, WABT_TYPE_F64, 0, 0xa6, ''F64_COPYSIGN'', ''f64.copysign''),
  (WABT_TYPE_I32, WABT_TYPE_I64, WABT_TYPE_VOID, 0, 0xa7, ''I32_WRAP_I64'', ''i32.wrap/i64''),
  (WABT_TYPE_I32, WABT_TYPE_F32, WABT_TYPE_VOID, 0, 0xa8, ''I32_TRUNC_S_F32'', ''i32.trunc_s/f32''),
  (WABT_TYPE_I32, WABT_TYPE_F32, WABT_TYPE_VOID, 0, 0xa9, ''I32_TRUNC_U_F32'', ''i32.trunc_u/f32''),
  (WABT_TYPE_I32, WABT_TYPE_F64, WABT_TYPE_VOID, 0, 0xaa, ''I32_TRUNC_S_F64'', ''i32.trunc_s/f64''),
  (WABT_TYPE_I32, WABT_TYPE_F64, WABT_TYPE_VOID, 0, 0xab, ''I32_TRUNC_U_F64'', ''i32.trunc_u/f64''),
  (WABT_TYPE_I64, WABT_TYPE_I32, WABT_TYPE_VOID, 0, 0xac, ''I64_EXTEND_S_I32'', ''i64.extend_s/i32''),
  (WABT_TYPE_I64, WABT_TYPE_I32, WABT_TYPE_VOID, 0, 0xad, ''I64_EXTEND_U_I32'', ''i64.extend_u/i32''),
  (WABT_TYPE_I64, WABT_TYPE_F32, WABT_TYPE_VOID, 0, 0xae, ''I64_TRUNC_S_F32'', ''i64.trunc_s/f32''),
  (WABT_TYPE_I64, WABT_TYPE_F32, WABT_TYPE_VOID, 0, 0xaf, ''I64_TRUNC_U_F32'', ''i64.trunc_u/f32''),
  (WABT_TYPE_I64, WABT_TYPE_F64, WABT_TYPE_VOID, 0, 0xb0, ''I64_TRUNC_S_F64'', ''i64.trunc_s/f64''),
  (WABT_TYPE_I64, WABT_TYPE_F64, WABT_TYPE_VOID, 0, 0xb1, ''I64_TRUNC_U_F64'', ''i64.trunc_u/f64''),
  (WABT_TYPE_F32, WABT_TYPE_I32, WABT_TYPE_VOID, 0, 0xb2, ''F32_CONVERT_S_I32'', ''f32.convert_s/i32''),
  (WABT_TYPE_F32, WABT_TYPE_I32, WABT_TYPE_VOID, 0, 0xb3, ''F32_CONVERT_U_I32'', ''f32.convert_u/i32''),
  (WABT_TYPE_F32, WABT_TYPE_I64, WABT_TYPE_VOID, 0, 0xb4, ''F32_CONVERT_S_I64'', ''f32.convert_s/i64''),
  (WABT_TYPE_F32, WABT_TYPE_I64, WABT_TYPE_VOID, 0, 0xb5, ''F32_CONVERT_U_I64'', ''f32.convert_u/i64''),
  (WABT_TYPE_F32, WABT_TYPE_F64, WABT_TYPE_VOID, 0, 0xb6, ''F32_DEMOTE_F64'', ''f32.demote/f64''),
  (WABT_TYPE_F64, WABT_TYPE_I32, WABT_TYPE_VOID, 0, 0xb7, ''F64_CONVERT_S_I32'', ''f64.convert_s/i32''),
  (WABT_TYPE_F64, WABT_TYPE_I32, WABT_TYPE_VOID, 0, 0xb8, ''F64_CONVERT_U_I32'', ''f64.convert_u/i32''),
  (WABT_TYPE_F64, WABT_TYPE_I64, WABT_TYPE_VOID, 0, 0xb9, ''F64_CONVERT_S_I64'', ''f64.convert_s/i64''),
  (WABT_TYPE_F64, WABT_TYPE_I64, WABT_TYPE_VOID, 0, 0xba, ''F64_CONVERT_U_I64'', ''f64.convert_u/i64''),
  (WABT_TYPE_F64, WABT_TYPE_F32, WABT_TYPE_VOID, 0, 0xbb, ''F64_PROMOTE_F32'', ''f64.promote/f32''),
  (WABT_TYPE_I32, WABT_TYPE_F32, WABT_TYPE_VOID, 0, 0xbc, ''I32_REINTERPRET_F32'', ''i32.reinterpret/f32''),
  (WABT_TYPE_I64, WABT_TYPE_F64, WABT_TYPE_VOID, 0, 0xbd, ''I64_REINTERPRET_F64'', ''i64.reinterpret/f64''),
  (WABT_TYPE_F32, WABT_TYPE_I32, WABT_TYPE_VOID, 0, 0xbe, ''F32_REINTERPRET_I32'', ''f32.reinterpret/i32''),
  (WABT_TYPE_F64, WABT_TYPE_I64, WABT_TYPE_VOID, 0, 0xbf, ''F64_REINTERPRET_I64'', ''f64.reinterpret/i64'')
  ]"

fun row_code :: "opcode_row \<Rightarrow> nat" where
  "row_code (tr, t1, t2, m, code, NAME, text) = code"

fun row_text :: "opcode_row \<Rightarrow> string" where
  "row_text (tr, t1, t2, m, code, NAME, text) = text"

fun row_mem_size :: "opcode_row \<Rightarrow> int" where
  "row_mem_size (tr, t1, t2, m, code, NAME, text) = m"

text \<open>
  \<^verbatim>\<open>enum WabtOpcode\<close> gives every row the enumerator
  \<^verbatim>\<open>WABT_OPCODE_##NAME = code\<close>; an opcode is modelled by its code.  The closing
  enumerator \<^verbatim>\<open>WABT_NUM_OPCODES\<close> has no initialiser, so C gives it the value of
  the enumerator before it plus one.
\<close>

definition WabtOpcode_codes :: "nat list" where
  "WabtOpcode_codes = map row_code WABT_FOREACH_OPCODE"

definition WABT_NUM_OPCODES :: nat where
  "WABT_NUM_OPCODES = last WabtOpcode_codes + 1"

record WabtOpcodeInfo =
  name :: "string option"
  result_type :: WabtType
  param1_type :: WabtType
  param2_type :: WabtType
  memory_size :: int

text \<open>
  Modelled from the spec: the definition of the array \<^verbatim>\<open>g_wabt_opcode_info\<close> is not
  in the header, which declares it \<^verbatim>\<open>extern\<close>.  An array with static storage starts
  zero-filled, and the spec has "records absent/invalid for unassigned codes": the record
  of such a code has a null name, the type whose value is 0 and memory size 0.
\<close>

definition zero_opcode_info :: WabtOpcodeInfo where
  "zero_opcode_info = \<lparr>name = None, result_type = WABT_TYPE_ANY,
     param1_type = WABT_TYPE_ANY, param2_type = WABT_TYPE_ANY, memory_size = 0\<rparr>"

text \<open>
  Modelled from the spec: the record a row of the table stands for, "mnemonic text, result
  type, up to two parameter types, memory-access width".
\<close>

fun row_info :: "opcode_row \<Rightarrow> WabtOpcodeInfo" where
  "row_info (tr, t1, t2, m, code, NAME, text) =
     \<lparr>name = Some text, result_type = tr, param1_type = t1, param2_type = t2,
      memory_size = m\<rparr>"

text \<open>
  Modelled from the spec: storing one row at the index of its code.  A store outside the
  array is not performed (\<open>list_update\<close> leaves the list as it is).
\<close>

definition store_row :: "WabtOpcodeInfo list \<Rightarrow> opcode_row \<Rightarrow> WabtOpcodeInfo list" where
  "store_row tbl row = tbl[row_code row := row_info row]"

text \<open>
  Modelled from the spec: the body of \<^verbatim>\<open>wabt_init_opcode_info\<close> is not in the
  header.  The spec has the table "built from a single declarative list at compile time
  or via one-time lazy initialization": every row of \<^verbatim>\<open>WABT_FOREACH_OPCODE\<close> is
  stored, in the macro's order.
\<close>

definition wabt_init_opcode_info :: "WabtOpcodeInfo list \<Rightarrow> WabtOpcodeInfo list" where
  "wabt_init_opcode_info tbl = foldl store_row tbl WABT_FOREACH_OPCODE"

text \<open>
  Modelled from the spec: the table the accessors read, after
  \<^verbatim>\<open>wabt_init_opcode_info\<close> has run on the zero-filled array of
  \<open>WABT_NUM_OPCODES\<close> records (the bound every accessor asserts).
\<close>

definition g_wabt_opcode_info :: "WabtOpcodeInfo list" where
  "g_wabt_opcode_info = wabt_init_opcode_info (replicate WABT_NUM_OPCODES zero_opcode_info)"

text \<open>
  The five accessors.  Each asserts \<^verbatim>\<open>opcode < WABT_NUM_OPCODES\<close>, initialises the
  table and reads one field of the record at index \<open>opcode\<close>.
\<close>

definition wabt_get_opcode_name :: "nat \<Rightarrow> error + string option" where
  "wabt_get_opcode_name opcode =
     (if opcode < WABT_NUM_OPCODES then Inr (name (g_wabt_opcode_info ! opcode))
      else Inl AssertionFailure)"

definition wabt_get_opcode_result_type :: "nat \<Rightarrow> error + WabtType" where
  "wabt_get_opcode_result_type opcode =
     (if opcode < WABT_NUM_OPCODES then Inr (result_type (g_wabt_opcode_info ! opcode))
      else Inl AssertionFailure)"

definition wabt_get_opcode_param_type_1 :: "nat \<Rightarrow> error + WabtType" where
  "wabt_get_opcode_param_type_1 opcode =
     (if opcode < WABT_NUM_OPCODES then Inr (param1_type (g_wabt_opcode_info ! opcode))
      else Inl AssertionFailure)"

definition wabt_get_opcode_param_type_2 :: "nat \<Rightarrow> error + WabtType" where
  "wabt_get_opcode_param_type_2 opcode =
     (if opcode < WABT_NUM_OPCODES then Inr (param2_type (g_wabt_opcode_info ! opcode))
      else Inl AssertionFailure)"

definition wabt_get_opcode_memory_size :: "nat \<Rightarrow> error + int" where
  "wabt_get_opcode_memory_size opcode =
     (if opcode < WABT_NUM_OPCODES then Inr (memory_size (g_wabt_opcode_info ! opcode))
      else Inl AssertionFailure)"

text \<open>
  The classification of an instruction as a memory load or store, read off its mnemonic:
  the operation name after the value-type prefix (\<open>i32.\<close>, \<open>f64.\<close>, ...) starts with
  \<open>load\<close> or \<open>store\<close>.  This is the specification's side of the comparison with the
  memory-size column.
\<close>

definition mnemonic_operation :: "string \<Rightarrow> string" where
  "mnemonic_operation text = drop 1 (dropWhile (\<lambda>c. c \<noteq> CHR ''.'') text)"

definition is_load_or_store :: "string \<Rightarrow> bool" where
  "is_load_or_store text =
     (take 4 (mnemonic_operation text) = ''load'' \<or>
      take 5 (mnemonic_operation text) = ''store'')"

section \<open>common.h: alignment\<close>

text \<open>\<^verbatim>\<open>enum { WABT_USE_NATURAL_ALIGNMENT = 0xFFFFFFFF }\<close>; alignments are \<^verbatim>\<open>uint32_t\<close>.\<close>

definition WABT_USE_NATURAL_ALIGNMENT :: "32 word" where
  "WABT_USE_NATURAL_ALIGNMENT = 0xFFFFFFFF"

text \<open>
  Modelled from the spec: the header does not say how the alignment of an opcode is
  computed.  The spec derives it from the record's memory-access width: "width 0: no
  alignment constraint; width W: natural alignment is the largest power of two \<open>\<le>\<close> W".
  It is kept in bytes here, as in the spec's own example ("i32.load (natural alignment 4
  bytes)").
\<close>

fun largest_power_of_two_le :: "nat \<Rightarrow> nat" where
  "largest_power_of_two_le w = (if w < 2 then w else 2 * largest_power_of_two_le (w div 2))"

declare largest_power_of_two_le.simps [simp del]

text \<open>
  Modelled from the spec: "the alignment of |opcode|" of the header's comments, the
  natural alignment of the memory size the table gives the opcode.
\<close>

definition natural_alignment :: "nat \<Rightarrow> error + 32 word" where
  "natural_alignment opcode =
     (case wabt_get_opcode_memory_size opcode of
        Inl e \<Rightarrow> Inl e
      | Inr m \<Rightarrow> Inr (word_of_nat (largest_power_of_two_le (nat m))))"

text \<open>
  Modelled from the spec: the body of \<^verbatim>\<open>wabt_get_opcode_alignment\<close> is not in the
  header, which declares it under the comment "if |alignment| is
  WABT_USE_NATURAL_ALIGNMENT, return the alignment of |opcode|, else return |alignment|";
  the spec's \<open>resolve_alignment\<close> says the same.
\<close>

definition wabt_get_opcode_alignment :: "nat \<Rightarrow> 32 word \<Rightarrow> error + 32 word" where
  "wabt_get_opcode_alignment opcode alignment =
     (if alignment = WABT_USE_NATURAL_ALIGNMENT then natural_alignment opcode
      else Inr alignment)"

text \<open>
  Modelled from the spec: the body of \<^verbatim>\<open>wabt_is_naturally_aligned\<close> is not in the
  header, which declares it under the comment "return 1 if |alignment| matches the
  alignment of |opcode|, or if |alignment| is WABT_USE_NATURAL_ALIGNMENT".
\<close>

definition wabt_is_naturally_aligned :: "nat \<Rightarrow> 32 word \<Rightarrow> error + bool" where
  "wabt_is_naturally_aligned opcode alignment =
     (case natural_alignment opcode of
        Inl e \<Rightarrow> Inl e
      | Inr opcode_align \<Rightarrow>
          Inr (alignment = opcode_align \<or> alignment = WABT_USE_NATURAL_ALIGNMENT))"

text \<open>
  Modelled from the spec: "it must be a power of two".  The powers of two of a 32-bit
  value are \<open>2 ^ 0\<close>, ..., \<open>2 ^ 31\<close>.
\<close>

definition is_power_of_two :: "32 word \<Rightarrow> bool" where
  "is_power_of_two a = (a \<in> set (map (\<lambda>k. 2 ^ k) [0..<32]))"

text \<open>
  Modelled from the spec: the parser's check of an alignment immediate is not in the
  header.  The spec: "an explicit alignment immediate is validated against the natural
  alignment: it must be a power of two and must not exceed the natural alignment;
  violation is a TypeError", and "the use-natural sentinel always succeeds and yields the
  natural alignment".
\<close>

definition validate_alignment :: "nat \<Rightarrow> 32 word \<Rightarrow> error + 32 word" where
  "validate_alignment opcode alignment =
     (case natural_alignment opcode of
        Inl e \<Rightarrow> Inl e
      | Inr natural \<Rightarrow>
          if alignment = WABT_USE_NATURAL_ALIGNMENT
          then wabt_get_opcode_alignment opcode alignment
          else if is_power_of_two alignment \<and> alignment \<le> natural then Inr alignment
          else Inl TypeError)"

section \<open>common.h: string slices\<close>

text \<open>
  Memory is a store of allocated blocks, each a list of bytes; a \<^verbatim>\<open>char*\<close> is a
  block and an offset into it.  \<open>next_block\<close> is the allocator's next unused block.
  A read or write outside the bytes of a block is undefined behaviour in C and the value
  \<open>None\<close> here.  \<^verbatim>\<open>size_t\<close> values are natural numbers: a length is bounded by the
  size of a block, so \<^verbatim>\<open>real_len + 1\<close> does not wrap.
\<close>

type_synonym byte = "8 word"

record WabtPtr =
  block :: nat
  offset :: nat

record heap =
  blocks :: "nat \<rightharpoonup> byte list"
  next_block :: nat

record WabtStringSlice =
  start :: WabtPtr
  length' :: nat

definition load_byte :: "heap \<Rightarrow> WabtPtr \<Rightarrow> byte option" where
  "load_byte h p =
     (case blocks h (block p) of
        None \<Rightarrow> None
      | Some bs \<Rightarrow> if offset p < length bs then Some (bs ! offset p) else None)"

definition store_byte :: "heap \<Rightarrow> WabtPtr \<Rightarrow> byte \<Rightarrow> heap option" where
  "store_byte h p c =
     (case blocks h (block p) of
        None \<Rightarrow> None
      | Some bs \<Rightarrow>
          if offset p < length bs
          then Some (h\<lparr>blocks := (blocks h)(block p \<mapsto> bs[offset p := c])\<rparr>)
          else None)"

definition ptr_add :: "WabtPtr \<Rightarrow> nat \<Rightarrow> WabtPtr" where
  "ptr_add p n = p\<lparr>offset := offset p + n\<rparr>"

text \<open>
  \<^verbatim>\<open>wabt_alloc\<close> is \<^verbatim>\<open>malloc\<close>: a new block of \<open>size'\<close> bytes, at offset 0.  Its
  contents are indeterminate in C; the model fills it with the byte \<open>0xAA\<close>.  An
  allocation that fails is not modelled.
\<close>

definition wabt_alloc :: "heap \<Rightarrow> nat \<Rightarrow> heap \<times> WabtPtr" where
  "wabt_alloc h size' =
     (h\<lparr>blocks := (blocks h)(next_block h \<mapsto> replicate size' 0xAA),
        next_block := next_block h + 1\<rparr>,
      \<lparr>block = next_block h, offset = 0\<rparr>)"

text \<open>\<^verbatim>\<open>memcpy(dst, src, n)\<close>, byte by byte.\<close>

fun memcpy :: "heap \<Rightarrow> WabtPtr \<Rightarrow> WabtPtr \<Rightarrow> nat \<Rightarrow> heap option" where
  "memcpy h dst src 0 = Some h"
| "memcpy h dst src (Suc n) =
     (case load_byte h src of
        None \<Rightarrow> None
      | Some c \<Rightarrow>
          (case store_byte h dst c of
             None \<Rightarrow> None
           | Some h' \<Rightarrow> memcpy h' (ptr_add dst 1) (ptr_add src 1) n))"

text \<open>
  The loop of \<^verbatim>\<open>wabt_strndup\<close>:
  \<^verbatim>\<open>while (real_len < len && *p) { p++; real_len++; }\<close>.  The byte at \<open>p\<close> is read
  only when \<open>real_len < len\<close>.
\<close>

function strndup_loop :: "heap \<Rightarrow> WabtPtr \<Rightarrow> nat \<Rightarrow> nat \<Rightarrow> nat option" where
  "strndup_loop h p real_len len =
     (if real_len < len then
        (case load_byte h p of
           None \<Rightarrow> None
         | Some c \<Rightarrow>
             if c \<noteq> 0 then strndup_loop h (ptr_add p 1) (real_len + 1) len
             else Some real_len)
      else Some real_len)"
  by pat_completeness auto
termination
  by (relation "measure (\<lambda>(h, p, real_len, len). len - real_len)") auto

declare strndup_loop.simps [simp del]

definition wabt_strndup :: "heap \<Rightarrow> WabtPtr \<Rightarrow> nat \<Rightarrow> (heap \<times> WabtPtr) option" where
  "wabt_strndup h s len =
     (case strndup_loop h s 0 len of
        None \<Rightarrow> None
      | Some real_len \<Rightarrow>
          (case wabt_alloc h (real_len + 1) of
             (h1, new_s) \<Rightarrow>
               (case memcpy h1 new_s s real_len of
                  None \<Rightarrow> None
                | Some h2 \<Rightarrow>
                    (case store_byte h2 (ptr_add new_s real_len) 0 of
                       None \<Rightarrow> None
                     | Some h3 \<Rightarrow> Some (h3, new_s)))))"

definition wabt_dup_string_slice :: "heap \<Rightarrow> WabtStringSlice \<Rightarrow> (heap \<times> WabtStringSlice) option" where
  "wabt_dup_string_slice h str =
     (case wabt_strndup h (start str) (length' str) of
        None \<Rightarrow> None
      | Some (h', new_s) \<Rightarrow> Some (h', \<lparr>start = new_s, length' = length' str\<rparr>))"

text \<open>
  A heap is well formed when the allocator has never handed out its next block.
\<close>

definition heap_wf :: "heap \<Rightarrow> bool" where
  "heap_wf h = (\<forall>b. next_block h \<le> b \<longrightarrow> blocks h b = None)"

section \<open>ast-parser.h: labels and branch targets\<close>

text \<open>
  Modelled from the spec: the header declares \<^verbatim>\<open>wabt_parse_ast\<close> and the label kinds
  (\<^verbatim>\<open>enum WabtLabelType\<close>) only; the parser's body is not in it.  The spec's data
  model: a label is "a label kind (func/block/loop/if/else), optional textual name,
  declared block signature", and the labels of a function body form a stack.  The stack
  is a list with the innermost open label first.
\<close>

record WabtLabel =
  label_type :: WabtLabelType
  label_name :: "string option"
  label_sig :: "WabtType list"

text \<open>
  Modelled from the spec: a branch "specifies its target either as a non-negative relative
  depth or as a name".
\<close>

datatype WabtVar = VarIndex nat | VarName string

text \<open>
  Modelled from the spec: "name resolution walks the stack from innermost outward and
  binds to the first match".  The result is the depth of the label found.
\<close>

fun find_label_by_name :: "string \<Rightarrow> WabtLabel list \<Rightarrow> nat option" where
  "find_label_by_name n [] = None"
| "find_label_by_name n (l # ls) =
     (if label_name l = Some n then Some 0
      else map_option Suc (find_label_by_name n ls))"

text \<open>
  Modelled from the spec: "a non-negative relative depth (0 = innermost open label)";
  "referencing a depth \<open>\<ge>\<close> the number of currently open labels, or a name with no enclosing
  match, is a ResolutionError raised at the branch site".  The result is the depth of the
  target and the label it denotes.
\<close>

fun resolve_branch_target :: "WabtLabel list \<Rightarrow> WabtVar \<Rightarrow> error + nat \<times> WabtLabel" where
  "resolve_branch_target labels (VarIndex d) =
     (if d < length labels then Inr (d, labels ! d) else Inl ResolutionError)"
| "resolve_branch_target labels (VarName n) =
     (case find_label_by_name n labels of
        None \<Rightarrow> Inl ResolutionError
      | Some d \<Rightarrow> Inr (d, labels ! d))"

text \<open>
  Modelled from the spec: the part of a function body that label resolution looks at.
  "Parsing a function body walks nested control constructs, pushing a Label onto a stack
  on block/loop/if (and else, which replaces the matching if label's kind), popping on the
  matching end."  Every other instruction is \<open>Plain\<close>, with its opcode.  The walk returns
  the resolved targets of the branches in source order, or the first error.
\<close>

datatype WabtExpr =
    Block "string option" "WabtType list" "WabtExpr list"
  | Loop "string option" "WabtType list" "WabtExpr list"
  | If "string option" "WabtType list" "WabtExpr list" "WabtExpr list"
  | Br WabtVar
  | BrIf WabtVar
  | BrTable "WabtVar list" WabtVar
  | Plain nat

text \<open>
  Modelled from the spec: the targets of one branch instruction, resolved in source order
  up to the first that fails (\<open>br_table\<close> has several).
\<close>

fun resolve_targets :: "WabtLabel list \<Rightarrow> WabtVar list \<Rightarrow> error + (nat \<times> WabtLabel) list" where
  "resolve_targets labels [] = Inr []"
| "resolve_targets labels (v # vs) =
     (case resolve_branch_target labels v of
        Inl e \<Rightarrow> Inl e
      | Inr t \<Rightarrow>
          (case resolve_targets labels vs of
             Inl e \<Rightarrow> Inl e
           | Inr ts \<Rightarrow> Inr (t # ts)))"

text \<open>
  Modelled from the spec: the walk over the body, with the labels open at each
  instruction.
\<close>

fun resolve_expr :: "WabtLabel list \<Rightarrow> WabtExpr \<Rightarrow> error + (nat \<times> WabtLabel) list"
  and resolve_exprs :: "WabtLabel list \<Rightarrow> WabtExpr list \<Rightarrow> error + (nat \<times> WabtLabel) list"
where
  "resolve_expr labels (Block n s body) =
     resolve_exprs (\<lparr>label_type = WABT_LABEL_TYPE_BLOCK, label_name = n, label_sig = s\<rparr> # labels) body"
| "resolve_expr labels (Loop n s body) =
     resolve_exprs (\<lparr>label_type = WABT_LABEL_TYPE_LOOP, label_name = n, label_sig = s\<rparr> # labels) body"
| "resolve_expr labels (If n s then_body else_body) =
     (case resolve_exprs (\<lparr>label_type = WABT_LABEL_TYPE_IF, label_name = n, label_sig = s\<rparr> # labels) then_body of
        Inl e \<Rightarrow> Inl e
      | Inr ts \<Rightarrow>
          (case resolve_exprs (\<lparr>label_type = WABT_LABEL_TYPE_ELSE, label_name = n, label_sig = s\<rparr> # labels) else_body of
             Inl e \<Rightarrow> Inl e
           | Inr fs \<Rightarrow> Inr (ts @ fs)))"
| "resolve_expr labels (Br v) = resolve_targets labels [v]"
| "resolve_expr labels (BrIf v) = resolve_targets labels [v]"
| "resolve_expr labels (BrTable vs v) = resolve_targets labels (vs @ [v])"
| "resolve_expr labels (Plain opcode) = Inr []"
| "resolve_exprs labels [] = Inr []"
| "resolve_exprs labels (e # es) =
     (case resolve_expr labels e of
        Inl err \<Rightarrow> Inl err
      | Inr ts \<Rightarrow>
          (case resolve_exprs labels es of
             Inl err \<Rightarrow> Inl err
           | Inr ts' \<Rightarrow> Inr (ts @ ts')))"

text \<open>
  Modelled from the spec: the targets a branch instruction names, in source order
  (\<open>br\<close> and \<open>br_if\<close> name one, \<open>br_table\<close> its table and its default); any other
  instruction names none.
\<close>

fun branch_targets :: "WabtExpr \<Rightarrow> WabtVar list" where
  "branch_targets (Br v) = [v]"
| "branch_targets (BrIf v) = [v]"
| "branch_targets (BrTable vs v) = vs @ [v]"
| "branch_targets (Block n s body) = []"
| "branch_targets (Loop n s body) = []"
| "branch_targets (If n s then_body else_body) = []"
| "branch_targets (Plain opcode) = []"

text \<open>
  Modelled from the spec: the labels open at an instruction inside a body, as the spec's
  sentence about pushing and popping has them, said without the walk.
  \<open>open_labels_at labels e ls i\<close>: the instruction \<open>i\<close> is \<open>e\<close> or lies inside it, and
  \<open>ls\<close> are the labels open at \<open>i\<close> when \<open>labels\<close> are open at \<open>e\<close>.  The body of a
  block, of a loop and of either arm of an if lies under one more label: of kind block,
  loop, if and (the if's label with its kind replaced) else.
\<close>

inductive open_labels_at :: "WabtLabel list \<Rightarrow> WabtExpr \<Rightarrow> WabtLabel list \<Rightarrow> WabtExpr \<Rightarrow> bool" where
  here: "open_labels_at labels e labels e"
| in_block:
    "e \<in> set body \<Longrightarrow>
     open_labels_at (\<lparr>label_type = WABT_LABEL_TYPE_BLOCK, label_name = n, label_sig = s\<rparr> # labels) e ls i \<Longrightarrow>
     open_labels_at labels (Block n s body) ls i"
| in_loop:
    "e \<in> set body \<Longrightarrow>
     open_labels_at (\<lparr>label_type = WABT_LABEL_TYPE_LOOP, label_name = n, label_sig = s\<rparr> # labels) e ls i \<Longrightarrow>
     open_labels_at labels (Loop n s body) ls i"
| in_then:
    "e \<in> set then_body \<Longrightarrow>
     open_labels_at (\<lparr>label_type = WABT_LABEL_TYPE_IF, label_name = n, label_sig = s\<rparr> # labels) e ls i \<Longrightarrow>
     open_labels_at labels (If n s then_body else_body) ls i"
| in_else:
    "e \<in> set else_body \<Longrightarrow>
     open_labels_at (\<lparr>label_type = WABT_LABEL_TYPE_ELSE, label_name = n, label_sig = s\<rparr> # labels) e ls i \<Longrightarrow>
     open_labels_at labels (If n s then_body else_body) ls i"

code_pred open_labels_at .

text \<open>
  Modelled from the spec: a branch site of \<open>e\<close>, "the branch site" of the spec: a
  target \<open>v\<close> named by a branch instruction in \<open>e\<close>, with the labels \<open>ls\<close> open there.
\<close>

definition branch_site :: "WabtLabel list \<Rightarrow> WabtExpr \<Rightarrow> WabtLabel list \<Rightarrow> WabtVar \<Rightarrow> bool" where
  "branch_site labels e ls v = (\<exists>i. open_labels_at labels e ls i \<and> v \<in> set (branch_targets i))"

section \<open>Properties of the opcode table\<close>

lemma WABT_NUM_OPCODES_eq: "WABT_NUM_OPCODES = 192"
  by (simp add: WABT_NUM_OPCODES_def WabtOpcode_codes_def WABT_FOREACH_OPCODE_def)

lemma distinct_WabtOpcode_codes: "distinct WabtOpcode_codes"
  by (simp add: WabtOpcode_codes_def WABT_FOREACH_OPCODE_def)

lemma rows_in_range:
  "list_all (\<lambda>r. row_code r < 192 \<and> 0 \<le> row_mem_size r \<and> row_mem_size r \<le> 8) WABT_FOREACH_OPCODE"
  by (simp add: WABT_FOREACH_OPCODE_def)

lemma rows_load_or_store:
  "list_all (\<lambda>r. (0 < row_mem_size r) = is_load_or_store (row_text r)) WABT_FOREACH_OPCODE"
  by (simp add: WABT_FOREACH_OPCODE_def is_load_or_store_def mnemonic_operation_def)

lemma foldl_store_row_nth:
  "distinct (map row_code rows) \<Longrightarrow> k < length tbl \<Longrightarrow>
   foldl store_row tbl rows ! k =
     (case map_of (map (\<lambda>r. (row_code r, row_info r)) rows) k of
        None \<Rightarrow> tbl ! k | Some i \<Rightarrow> i)"
proof (induction rows arbitrary: tbl)
  case Nil
  then show ?case by simp
next
  case (Cons r rows)
  have notin: "row_code r \<notin> row_code ` set rows" using Cons.prems(1) by simp
  have d: "distinct (map row_code rows)" using Cons.prems(1) by simp
  have len: "k < length (store_row tbl r)" using Cons.prems(2) by (simp add: store_row_def)
  show ?case
  proof (cases "k = row_code r")
    case True
    then have "map_of (map (\<lambda>r. (row_code r, row_info r)) rows) k = None"
      using notin by (simp add: map_of_eq_None_iff image_image)
    then show ?thesis using True Cons.IH[OF d len] Cons.prems(2)
      by (simp add: store_row_def)
  next
    case False
    then have "store_row tbl r ! k = tbl ! k" by (simp add: store_row_def)
    then show ?thesis using Cons.IH[OF d len] False
      by (simp split: option.split)
  qed
qed

lemma map_of_row_hit:
  "distinct (map row_code rows) \<Longrightarrow> r \<in> set rows \<Longrightarrow>
   map_of (map (\<lambda>r. (row_code r, row_info r)) rows) (row_code r) = Some (row_info r)"
  by (induction rows) (auto simp: rev_image_eqI)

lemma opcode_info_assigned:
  assumes "r \<in> set WABT_FOREACH_OPCODE"
  shows "g_wabt_opcode_info ! row_code r = row_info r"
proof -
  have d: "distinct (map row_code WABT_FOREACH_OPCODE)"
    using distinct_WabtOpcode_codes by (simp add: WabtOpcode_codes_def)
  have "row_code r < 192" using rows_in_range assms by (simp add: list_all_iff)
  then have len: "row_code r < length (replicate WABT_NUM_OPCODES zero_opcode_info)"
    by (simp add: WABT_NUM_OPCODES_eq)
  have "map_of (map (\<lambda>r. (row_code r, row_info r)) WABT_FOREACH_OPCODE) (row_code r) = Some (row_info r)"
    using d assms by (rule map_of_row_hit)
  then show ?thesis
    using foldl_store_row_nth[OF d len]
    by (simp add: g_wabt_opcode_info_def wabt_init_opcode_info_def)
qed

lemma opcode_info_unassigned:
  assumes "k < WABT_NUM_OPCODES" and "k \<notin> set WabtOpcode_codes"
  shows "g_wabt_opcode_info ! k = zero_opcode_info"
proof -
  have d: "distinct (map row_code WABT_FOREACH_OPCODE)"
    using distinct_WabtOpcode_codes by (simp add: WabtOpcode_codes_def)
  have len: "k < length (replicate WABT_NUM_OPCODES zero_opcode_info)" using assms(1) by simp
  have "map_of (map (\<lambda>r. (row_code r, row_info r)) WABT_FOREACH_OPCODE) k = None"
    using assms(2) by (simp add: map_of_eq_None_iff image_image WabtOpcode_codes_def)
  then show ?thesis
    using foldl_store_row_nth[OF d len] assms(1)
    by (simp add: g_wabt_opcode_info_def wabt_init_opcode_info_def)
qed

lemma foldl_store_row_length: "length (foldl store_row tbl rows) = length tbl"
  by (induction rows arbitrary: tbl) (simp_all add: store_row_def)

text \<open>
  Every accessor calls \<^verbatim>\<open>wabt_init_opcode_info\<close> before it reads.  Running it on the
  initialised table changes nothing, so every read sees the same table.
\<close>

lemma wabt_init_opcode_info_idempotent:
  "wabt_init_opcode_info g_wabt_opcode_info = g_wabt_opcode_info"
proof (rule nth_equalityI)
  show "length (wabt_init_opcode_info g_wabt_opcode_info) = length g_wabt_opcode_info"
    by (simp add: wabt_init_opcode_info_def foldl_store_row_length)
next
  fix k assume "k < length (wabt_init_opcode_info g_wabt_opcode_info)"
  then have k: "k < length g_wabt_opcode_info"
    by (simp add: wabt_init_opcode_info_def foldl_store_row_length)
  then have k0: "k < length (replicate WABT_NUM_OPCODES zero_opcode_info)"
    by (simp add: g_wabt_opcode_info_def wabt_init_opcode_info_def foldl_store_row_length)
  have d: "distinct (map row_code WABT_FOREACH_OPCODE)"
    using distinct_WabtOpcode_codes by (simp add: WabtOpcode_codes_def)
  show "wabt_init_opcode_info g_wabt_opcode_info ! k = g_wabt_opcode_info ! k"
    using foldl_store_row_nth[OF d k] foldl_store_row_nth[OF d k0]
    by (simp add: wabt_init_opcode_info_def g_wabt_opcode_info_def split: option.split)
qed

lemma opcode_memory_size_bounds:
  assumes "k < WABT_NUM_OPCODES"
  shows "0 \<le> memory_size (g_wabt_opcode_info ! k) \<and> memory_size (g_wabt_opcode_info ! k) \<le> 8"
proof (cases "k \<in> set WabtOpcode_codes")
  case True
  then obtain r where r: "r \<in> set WABT_FOREACH_OPCODE" "k = row_code r"
    by (auto simp: WabtOpcode_codes_def)
  have "0 \<le> row_mem_size r \<and> row_mem_size r \<le> 8"
    using rows_in_range r(1) by (simp add: list_all_iff)
  moreover have "memory_size (row_info r) = row_mem_size r" by (cases r) simp
  ultimately show ?thesis using opcode_info_assigned[OF r(1)] r(2) by simp
next
  case False
  then show ?thesis using opcode_info_unassigned[OF assms] by (simp add: zero_opcode_info_def)
qed

text \<open>
  Claim C4, as the code has it.  \<^verbatim>\<open>WABT_NUM_OPCODES\<close> is 192 (\<open>0xbf + 1\<close>).  The five
  accessors return a value for every opcode below 192: for a code that no row of the
  table assigns they return the fields of the zero-filled record (a null name, the type
  with value 0, memory size 0).  For every value from 192 on, so for the byte values 192
  to 255, the assertion \<^verbatim>\<open>opcode < WABT_NUM_OPCODES\<close> of each accessor fails.
\<close>

theorem opcode_accessors_assert_below_num_opcodes:
  "WABT_NUM_OPCODES = 192 \<and>
   (\<forall>opcode.
      (opcode < WABT_NUM_OPCODES \<longrightarrow>
         (\<exists>n. wabt_get_opcode_name opcode = Inr n) \<and>
         (\<exists>t. wabt_get_opcode_result_type opcode = Inr t) \<and>
         (\<exists>t. wabt_get_opcode_param_type_1 opcode = Inr t) \<and>
         (\<exists>t. wabt_get_opcode_param_type_2 opcode = Inr t) \<and>
         (\<exists>m. wabt_get_opcode_memory_size opcode = Inr m)) \<and>
      (opcode < WABT_NUM_OPCODES \<and> opcode \<notin> set WabtOpcode_codes \<longrightarrow>
         wabt_get_opcode_name opcode = Inr None \<and>
         wabt_get_opcode_result_type opcode = Inr WABT_TYPE_ANY \<and>
         wabt_get_opcode_param_type_1 opcode = Inr WABT_TYPE_ANY \<and>
         wabt_get_opcode_param_type_2 opcode = Inr WABT_TYPE_ANY \<and>
         wabt_get_opcode_memory_size opcode = Inr 0) \<and>
      (WABT_NUM_OPCODES \<le> opcode \<longrightarrow>
         wabt_get_opcode_name opcode = Inl AssertionFailure \<and>
         wabt_get_opcode_result_type opcode = Inl AssertionFailure \<and>
         wabt_get_opcode_param_type_1 opcode = Inl AssertionFailure \<and>
         wabt_get_opcode_param_type_2 opcode = Inl AssertionFailure \<and>
         wabt_get_opcode_memory_size opcode = Inl AssertionFailure))"
proof (intro conjI allI impI)
  show "WABT_NUM_OPCODES = 192" by (rule WABT_NUM_OPCODES_eq)
next
  fix opcode
  assume "opcode < WABT_NUM_OPCODES \<and> opcode \<notin> set WabtOpcode_codes"
  then have lt: "opcode < WABT_NUM_OPCODES"
    and z: "g_wabt_opcode_info ! opcode = zero_opcode_info"
    using opcode_info_unassigned by simp_all
  show "wabt_get_opcode_name opcode = Inr None"
    using lt z by (simp add: wabt_get_opcode_name_def zero_opcode_info_def)
  show "wabt_get_opcode_result_type opcode = Inr WABT_TYPE_ANY"
    using lt z by (simp add: wabt_get_opcode_result_type_def zero_opcode_info_def)
  show "wabt_get_opcode_param_type_1 opcode = Inr WABT_TYPE_ANY"
    using lt z by (simp add: wabt_get_opcode_param_type_1_def zero_opcode_info_def)
  show "wabt_get_opcode_param_type_2 opcode = Inr WABT_TYPE_ANY"
    using lt z by (simp add: wabt_get_opcode_param_type_2_def zero_opcode_info_def)
  show "wabt_get_opcode_memory_size opcode = Inr 0"
    using lt z by (simp add: wabt_get_opcode_memory_size_def zero_opcode_info_def)
qed (simp_all add: wabt_get_opcode_name_def wabt_get_opcode_result_type_def
      wabt_get_opcode_param_type_1_def wabt_get_opcode_param_type_2_def
      wabt_get_opcode_memory_size_def)

theorem opcode_accessors_assert_below_num_opcodes_witness:
  "(6::nat) < WABT_NUM_OPCODES \<and> 6 \<notin> set WabtOpcode_codes \<and>
   wabt_get_opcode_name 6 = Inr None \<and> wabt_get_opcode_memory_size 6 = Inr 0 \<and>
   WABT_NUM_OPCODES \<le> 200 \<and> wabt_get_opcode_name 200 = Inl AssertionFailure"
proof -
  have a: "(6::nat) < WABT_NUM_OPCODES" and c: "WABT_NUM_OPCODES \<le> 200"
    by (simp_all add: WABT_NUM_OPCODES_eq)
  have b: "6 \<notin> set WabtOpcode_codes"
    by (simp add: WabtOpcode_codes_def WABT_FOREACH_OPCODE_def)
  show ?thesis
    using a b c opcode_accessors_assert_below_num_opcodes by blast
qed

theorem opcode_lookup_all_bytes_counterexample:
  "(192::nat) \<le> 255 \<and>
   wabt_get_opcode_name 192 = Inl AssertionFailure \<and>
   wabt_get_opcode_result_type 192 = Inl AssertionFailure \<and>
   wabt_get_opcode_param_type_1 192 = Inl AssertionFailure \<and>
   wabt_get_opcode_param_type_2 192 = Inl AssertionFailure \<and>
   wabt_get_opcode_memory_size 192 = Inl AssertionFailure \<and>
   wabt_get_opcode_name 255 = Inl AssertionFailure"
  by (simp add: wabt_get_opcode_name_def wabt_get_opcode_result_type_def
      wabt_get_opcode_param_type_1_def wabt_get_opcode_param_type_2_def
      wabt_get_opcode_memory_size_def WABT_NUM_OPCODES_eq)

text \<open>
  Claim C5.  For every row of \<^verbatim>\<open>WABT_FOREACH_OPCODE\<close>, the name looked up at the
  row's code is the row's text, and the memory size looked up there is positive exactly
  when the mnemonic is a load or a store; \<open>current_memory\<close> and \<open>grow_memory\<close> have
  memory size 0.
\<close>

theorem opcode_table_names_and_memory_sizes:
  "(\<forall>row \<in> set WABT_FOREACH_OPCODE.
      wabt_get_opcode_name (row_code row) = Inr (Some (row_text row)) \<and>
      (\<exists>m. wabt_get_opcode_memory_size (row_code row) = Inr m \<and>
           (0 < m) = is_load_or_store (row_text row))) \<and>
   wabt_get_opcode_name 0x3f = Inr (Some ''current_memory'') \<and>
   wabt_get_opcode_memory_size 0x3f = Inr 0 \<and>
   wabt_get_opcode_name 0x40 = Inr (Some ''grow_memory'') \<and>
   wabt_get_opcode_memory_size 0x40 = Inr 0"
proof -
  have rows: "wabt_get_opcode_name (row_code row) = Inr (Some (row_text row)) \<and>
      wabt_get_opcode_memory_size (row_code row) = Inr (row_mem_size row) \<and>
      (0 < row_mem_size row) = is_load_or_store (row_text row)"
    if "row \<in> set WABT_FOREACH_OPCODE" for row
  proof -
    have lt: "row_code row < WABT_NUM_OPCODES"
      using rows_in_range that by (simp add: list_all_iff WABT_NUM_OPCODES_eq)
    have ls: "(0 < row_mem_size row) = is_load_or_store (row_text row)"
      using rows_load_or_store that by (simp add: list_all_iff)
    have "name (row_info row) = Some (row_text row)"
      and "memory_size (row_info row) = row_mem_size row"
      by (cases row, simp)+
    then show ?thesis
      using lt ls opcode_info_assigned[OF that]
      by (simp add: wabt_get_opcode_name_def wabt_get_opcode_memory_size_def)
  qed
  have cm: "(WABT_TYPE_I32, WABT_TYPE_VOID, WABT_TYPE_VOID, 0, 0x3f, ''CURRENT_MEMORY'', ''current_memory'')
      \<in> set WABT_FOREACH_OPCODE"
    and gm: "(WABT_TYPE_I32, WABT_TYPE_I32, WABT_TYPE_VOID, 0, 0x40, ''GROW_MEMORY'', ''grow_memory'')
      \<in> set WABT_FOREACH_OPCODE"
    by (simp_all add: WABT_FOREACH_OPCODE_def)
  show ?thesis
    using rows rows[OF cm] rows[OF gm] by simp
qed

theorem opcode_table_names_and_memory_sizes_witness:
  "(WABT_TYPE_I32, WABT_TYPE_I32, WABT_TYPE_VOID, 4, 0x28, ''I32_LOAD'', ''i32.load'')
      \<in> set WABT_FOREACH_OPCODE \<and>
   wabt_get_opcode_name 0x28 = Inr (Some ''i32.load'') \<and>
   (\<exists>m. wabt_get_opcode_memory_size 0x28 = Inr m \<and> 0 < m) \<and>
   is_load_or_store ''i32.load''"
proof -
  have r: "(WABT_TYPE_I32, WABT_TYPE_I32, WABT_TYPE_VOID, 4, 0x28, ''I32_LOAD'', ''i32.load'')
      \<in> set WABT_FOREACH_OPCODE"
    by (simp add: WABT_FOREACH_OPCODE_def)
  have ls: "is_load_or_store ''i32.load''"
    by (simp add: is_load_or_store_def mnemonic_operation_def)
  show ?thesis
    using r ls opcode_table_names_and_memory_sizes [THEN conjunct1, THEN bspec, OF r]
    by simp
qed

text \<open>
  Claim C7, as the code has it.  \<^verbatim>\<open>enum WabtType\<close> has exactly the eight
  enumerators i32, i64, f32, f64, anyfunc, func, void and any (so named by
  \<^verbatim>\<open>wabt_get_type_name\<close>), with pairwise different values.  Every one but \<open>any\<close> has a value between \<open>-0x40\<close> and \<open>-1\<close>, which is the code
  of no opcode.  \<open>WABT_TYPE_ANY\<close> is 0 ("not actually specified, but useful for
  type-checking"): it is not negative, and 0 is also the code of \<open>unreachable\<close>.
\<close>

theorem value_type_tags:
  "(UNIV :: WabtType set) =
     {WABT_TYPE_I32, WABT_TYPE_I64, WABT_TYPE_F32, WABT_TYPE_F64, WABT_TYPE_ANYFUNC,
      WABT_TYPE_FUNC, WABT_TYPE_VOID, WABT_TYPE_ANY} \<and>
   wabt_get_type_name ` UNIV =
     {''i32'', ''i64'', ''f32'', ''f64'', ''anyfunc'', ''func'', ''void'', ''any''} \<and>
   inj WabtType_value \<and>
   (\<forall>t. t \<noteq> WABT_TYPE_ANY \<longrightarrow>
      - 0x40 \<le> WabtType_value t \<and> WabtType_value t < 0 \<and>
      WabtType_value t \<notin> int ` set WabtOpcode_codes) \<and>
   WabtType_value WABT_TYPE_ANY = 0"
proof (intro conjI allI impI)
  show all: "(UNIV :: WabtType set) =
     {WABT_TYPE_I32, WABT_TYPE_I64, WABT_TYPE_F32, WABT_TYPE_F64, WABT_TYPE_ANYFUNC,
      WABT_TYPE_FUNC, WABT_TYPE_VOID, WABT_TYPE_ANY}"
  proof -
    have "t \<in> {WABT_TYPE_I32, WABT_TYPE_I64, WABT_TYPE_F32, WABT_TYPE_F64, WABT_TYPE_ANYFUNC,
      WABT_TYPE_FUNC, WABT_TYPE_VOID, WABT_TYPE_ANY}" for t
      by (cases t) simp_all
    then show ?thesis by blast
  qed
  show "wabt_get_type_name ` UNIV =
     {''i32'', ''i64'', ''f32'', ''f64'', ''anyfunc'', ''func'', ''void'', ''any''}"
    by (simp only: all image_insert image_empty wabt_get_type_name.simps)
  show "inj WabtType_value"
  proof (rule injI)
    fix x y assume "WabtType_value x = WabtType_value y"
    then show "x = y" by (cases x; cases y) simp_all
  qed
next
  fix t assume "t \<noteq> WABT_TYPE_ANY"
  then show "- 0x40 \<le> WabtType_value t" and neg: "WabtType_value t < 0"
    by (cases t; simp)+
  then show "WabtType_value t \<notin> int ` set WabtOpcode_codes" by auto
qed simp

theorem value_type_tags_witness:
  "WABT_TYPE_I32 \<noteq> WABT_TYPE_ANY \<and> WabtType_value WABT_TYPE_I32 = - 1 \<and>
   WabtType_value WABT_TYPE_I32 \<notin> int ` set WabtOpcode_codes"
proof -
  have ne: "WABT_TYPE_I32 \<noteq> WABT_TYPE_ANY" by simp
  have "WabtType_value WABT_TYPE_I32 \<notin> int ` set WabtOpcode_codes"
    using value_type_tags ne by blast
  then show ?thesis by simp
qed

theorem type_any_tag_counterexample:
  "WabtType_value WABT_TYPE_ANY = 0 \<and> \<not> WabtType_value WABT_TYPE_ANY < 0 \<and>
   row_code (WABT_TYPE_VOID, WABT_TYPE_VOID, WABT_TYPE_VOID, 0, 0x00, ''UNREACHABLE'', ''unreachable'') = 0 \<and>
   WabtType_value WABT_TYPE_ANY \<in> int ` set WabtOpcode_codes"
  by (simp add: WabtOpcode_codes_def WABT_FOREACH_OPCODE_def)

section \<open>Properties of alignment\<close>

lemma unat_two_power_32: "k < 32 \<Longrightarrow> unat ((2::32 word) ^ k) = 2 ^ k"
proof -
  assume k: "k < 32"
  have "(2::nat) ^ k < 2 ^ 32" using k by (intro power_strict_increasing) simp_all
  moreover have "unat ((2::32 word) ^ k) = unat (word_of_nat (2 ^ k) :: 32 word)" by simp
  ultimately show ?thesis by (simp only: unat_of_nat) simp
qed

lemma is_power_of_two_iff: "is_power_of_two a = (\<exists>k. unat a = 2 ^ k)"
proof
  assume "is_power_of_two a"
  then obtain k where k: "k < 32" "a = 2 ^ k"
    by (auto simp: is_power_of_two_def)
  then show "\<exists>k. unat a = 2 ^ k" using unat_two_power_32 by blast
next
  assume "\<exists>k. unat a = 2 ^ k"
  then obtain k where k: "unat a = 2 ^ k" ..
  have "unat a < 2 ^ LENGTH(32)" by (rule unsigned_less)
  then have "(2::nat) ^ k < 2 ^ 32" using k by simp
  then have k32: "k < 32" by (rule power_less_imp_less_exp [rotated]) simp
  have "a = word_of_nat (unat a)" by simp
  also have "\<dots> = 2 ^ k" by (simp only: k) simp
  finally show "is_power_of_two a" using k32 by (auto simp: is_power_of_two_def)
qed

lemma largest_power_of_two_le_le: "largest_power_of_two_le w \<le> w"
proof (induction w rule: largest_power_of_two_le.induct)
  case (1 w)
  show ?case
  proof (cases "w < 2")
    case True
    then show ?thesis by (simp add: largest_power_of_two_le.simps)
  next
    case False
    then have "largest_power_of_two_le (w div 2) \<le> w div 2" using 1 by simp
    then have "2 * largest_power_of_two_le (w div 2) \<le> w" by simp
    then show ?thesis using False by (subst largest_power_of_two_le.simps) simp
  qed
qed

lemma natural_alignment_defined:
  assumes "opcode < WABT_NUM_OPCODES"
  shows "\<exists>a. natural_alignment opcode = Inr a \<and> unat a \<le> 8"
proof -
  let ?m = "memory_size (g_wabt_opcode_info ! opcode)"
  have ms: "wabt_get_opcode_memory_size opcode = Inr ?m"
    using assms by (simp add: wabt_get_opcode_memory_size_def)
  have "nat ?m \<le> 8" using opcode_memory_size_bounds[OF assms] by linarith
  then have le: "largest_power_of_two_le (nat ?m) \<le> 8"
    using largest_power_of_two_le_le[of "nat ?m"] by simp
  then have "unat (word_of_nat (largest_power_of_two_le (nat ?m)) :: 32 word)
      = largest_power_of_two_le (nat ?m)"
    by (simp add: unat_of_nat)
  then show ?thesis using ms le by (simp add: natural_alignment_def)
qed

lemma natural_alignment_i32_load: "natural_alignment 0x28 = Inr 4"
proof -
  have r: "(WABT_TYPE_I32, WABT_TYPE_I32, WABT_TYPE_VOID, 4, 0x28, ''I32_LOAD'', ''i32.load'')
      \<in> set WABT_FOREACH_OPCODE"
    by (simp add: WABT_FOREACH_OPCODE_def)
  have "wabt_get_opcode_memory_size 0x28 = Inr 4"
    using opcode_info_assigned[OF r]
    by (simp add: wabt_get_opcode_memory_size_def WABT_NUM_OPCODES_eq)
  moreover have "largest_power_of_two_le 4 = 4"
    by (simp add: largest_power_of_two_le.simps)
  ultimately show ?thesis by (simp add: natural_alignment_def)
qed

text \<open>
  Claim C6.  For every opcode and every requested alignment: when the requested value is
  \<^verbatim>\<open>WABT_USE_NATURAL_ALIGNMENT\<close>, \<^verbatim>\<open>wabt_get_opcode_alignment\<close> returns the
  natural alignment of the opcode, which for an opcode below \<open>WABT_NUM_OPCODES\<close> is the
  largest power of two not above its memory size; every other requested value is returned
  unchanged, whatever it is.
\<close>

theorem wabt_get_opcode_alignment_sentinel_or_unchanged:
  "wabt_get_opcode_alignment opcode WABT_USE_NATURAL_ALIGNMENT = natural_alignment opcode \<and>
   (opcode < WABT_NUM_OPCODES \<longrightarrow>
      (\<exists>m. wabt_get_opcode_memory_size opcode = Inr m \<and>
           wabt_get_opcode_alignment opcode WABT_USE_NATURAL_ALIGNMENT =
             Inr (word_of_nat (largest_power_of_two_le (nat m))))) \<and>
   (alignment \<noteq> WABT_USE_NATURAL_ALIGNMENT \<longrightarrow>
      wabt_get_opcode_alignment opcode alignment = Inr alignment)"
  by (simp add: wabt_get_opcode_alignment_def natural_alignment_def
      wabt_get_opcode_memory_size_def)

theorem wabt_get_opcode_alignment_sentinel_or_unchanged_witness:
  "(0x28::nat) < WABT_NUM_OPCODES \<and>
   wabt_get_opcode_alignment 0x28 WABT_USE_NATURAL_ALIGNMENT = Inr 4 \<and>
   (3::32 word) \<noteq> WABT_USE_NATURAL_ALIGNMENT \<and>
   wabt_get_opcode_alignment 0x28 3 = Inr 3"
proof -
  have a: "(0x28::nat) < WABT_NUM_OPCODES" by (simp add: WABT_NUM_OPCODES_eq)
  have b: "(3::32 word) \<noteq> WABT_USE_NATURAL_ALIGNMENT"
    by (simp add: WABT_USE_NATURAL_ALIGNMENT_def)
  have "wabt_get_opcode_alignment 0x28 WABT_USE_NATURAL_ALIGNMENT = natural_alignment 0x28"
    and "wabt_get_opcode_alignment 0x28 3 = Inr 3"
    using b wabt_get_opcode_alignment_sentinel_or_unchanged [of "0x28" 3] by blast+
  then show ?thesis using a b natural_alignment_i32_load by simp
qed

text \<open>
  Claim C10.  The sentinel is the value \<open>0xFFFFFFFF\<close>.  For every opcode below
  \<open>WABT_NUM_OPCODES\<close>, a requested alignment of \<open>0xFFFFFFFF\<close> makes
  \<^verbatim>\<open>wabt_get_opcode_alignment\<close> return the natural alignment, which is not
  \<open>0xFFFFFFFF\<close>, and \<^verbatim>\<open>wabt_is_naturally_aligned\<close> accepts it; no requested value
  makes \<^verbatim>\<open>wabt_get_opcode_alignment\<close> return \<open>0xFFFFFFFF\<close>.
\<close>

theorem max_uint32_alignment_is_the_sentinel:
  "WABT_USE_NATURAL_ALIGNMENT = 0xFFFFFFFF \<and>
   (opcode < WABT_NUM_OPCODES \<longrightarrow>
      (\<exists>a. natural_alignment opcode = Inr a \<and> a \<noteq> 0xFFFFFFFF \<and>
           wabt_get_opcode_alignment opcode 0xFFFFFFFF = Inr a) \<and>
      wabt_is_naturally_aligned opcode 0xFFFFFFFF = Inr True \<and>
      (\<forall>alignment. wabt_get_opcode_alignment opcode alignment \<noteq> Inr 0xFFFFFFFF))"
proof (intro conjI impI)
  show "WABT_USE_NATURAL_ALIGNMENT = 0xFFFFFFFF" by (simp add: WABT_USE_NATURAL_ALIGNMENT_def)
next
  assume lt: "opcode < WABT_NUM_OPCODES"
  obtain a where a: "natural_alignment opcode = Inr a" "unat a \<le> 8"
    using natural_alignment_defined[OF lt] by blast
  have ne: "a \<noteq> 0xFFFFFFFF" using a(2) by auto
  show "\<exists>a. natural_alignment opcode = Inr a \<and> a \<noteq> 0xFFFFFFFF \<and>
           wabt_get_opcode_alignment opcode 0xFFFFFFFF = Inr a"
    using a(1) ne by (simp add: wabt_get_opcode_alignment_def WABT_USE_NATURAL_ALIGNMENT_def)
  show "wabt_is_naturally_aligned opcode 0xFFFFFFFF = Inr True"
    using a(1) by (simp add: wabt_is_naturally_aligned_def WABT_USE_NATURAL_ALIGNMENT_def)
  show "\<forall>alignment. wabt_get_opcode_alignment opcode alignment \<noteq> Inr 0xFFFFFFFF"
    using a(1) ne by (simp add: wabt_get_opcode_alignment_def WABT_USE_NATURAL_ALIGNMENT_def)
qed

theorem max_uint32_alignment_is_the_sentinel_witness:
  "(0x28::nat) < WABT_NUM_OPCODES \<and>
   wabt_get_opcode_alignment 0x28 0xFFFFFFFF = Inr 4 \<and>
   wabt_is_naturally_aligned 0x28 0xFFFFFFFF = Inr True"
proof -
  have a: "(0x28::nat) < WABT_NUM_OPCODES" by (simp add: WABT_NUM_OPCODES_eq)
  show ?thesis
    using a natural_alignment_i32_load max_uint32_alignment_is_the_sentinel [of "0x28"]
    by auto
qed

text \<open>
  Claim C2.  For every memory instruction (an opcode whose memory size is positive), an
  alignment immediate other than the use-natural sentinel is accepted exactly when it is a
  power of two that does not exceed the natural alignment of the instruction, and is a
  TypeError otherwise; the sentinel is accepted and yields the natural alignment.  For
  \<open>i32.load\<close> (code \<open>0x28\<close>, natural alignment 4), alignment 2 is accepted and
  alignment 8 is a TypeError.
\<close>

theorem alignment_immediate_validation:
  "(\<forall>opcode m.
      wabt_get_opcode_memory_size opcode = Inr m \<and> 0 < m \<longrightarrow>
      (\<exists>natural.
         natural_alignment opcode = Inr natural \<and>
         validate_alignment opcode WABT_USE_NATURAL_ALIGNMENT = Inr natural \<and>
         (\<forall>alignment.
            alignment \<noteq> WABT_USE_NATURAL_ALIGNMENT \<longrightarrow>
            (validate_alignment opcode alignment = Inr alignment) =
              ((\<exists>k. unat alignment = 2 ^ k) \<and> unat alignment \<le> unat natural) \<and>
            (validate_alignment opcode alignment \<noteq> Inr alignment \<longrightarrow>
               validate_alignment opcode alignment = Inl TypeError)))) \<and>
   wabt_get_opcode_name 0x28 = Inr (Some ''i32.load'') \<and>
   natural_alignment 0x28 = Inr 4 \<and>
   validate_alignment 0x28 2 = Inr 2 \<and>
   validate_alignment 0x28 8 = Inl TypeError \<and>
   validate_alignment 0x28 WABT_USE_NATURAL_ALIGNMENT = Inr 4"
proof (intro conjI allI impI)
  fix opcode m
  assume "wabt_get_opcode_memory_size opcode = Inr m \<and> 0 < m"
  then have ms: "wabt_get_opcode_memory_size opcode = Inr m" by simp
  define natural :: "32 word" where "natural = word_of_nat (largest_power_of_two_le (nat m))"
  have na: "natural_alignment opcode = Inr natural"
    using ms by (simp add: natural_alignment_def natural_def)
  have s: "validate_alignment opcode WABT_USE_NATURAL_ALIGNMENT = Inr natural"
    using na by (simp add: validate_alignment_def wabt_get_opcode_alignment_def)
  have e: "(validate_alignment opcode alignment = Inr alignment) =
              ((\<exists>k. unat alignment = 2 ^ k) \<and> unat alignment \<le> unat natural) \<and>
            (validate_alignment opcode alignment \<noteq> Inr alignment \<longrightarrow>
               validate_alignment opcode alignment = Inl TypeError)"
    if "alignment \<noteq> WABT_USE_NATURAL_ALIGNMENT" for alignment
    using that na
    by (simp add: validate_alignment_def is_power_of_two_iff [symmetric] word_le_nat_alt)
  show "\<exists>natural.
         natural_alignment opcode = Inr natural \<and>
         validate_alignment opcode WABT_USE_NATURAL_ALIGNMENT = Inr natural \<and>
         (\<forall>alignment.
            alignment \<noteq> WABT_USE_NATURAL_ALIGNMENT \<longrightarrow>
            (validate_alignment opcode alignment = Inr alignment) =
              ((\<exists>k. unat alignment = 2 ^ k) \<and> unat alignment \<le> unat natural) \<and>
            (validate_alignment opcode alignment \<noteq> Inr alignment \<longrightarrow>
               validate_alignment opcode alignment = Inl TypeError))"
    using na s e by blast
next
  have r: "(WABT_TYPE_I32, WABT_TYPE_I32, WABT_TYPE_VOID, 4, 0x28, ''I32_LOAD'', ''i32.load'')
      \<in> set WABT_FOREACH_OPCODE"
    by (simp add: WABT_FOREACH_OPCODE_def)
  show "wabt_get_opcode_name 0x28 = Inr (Some ''i32.load'')"
    using opcode_info_assigned[OF r]
    by (simp add: wabt_get_opcode_name_def WABT_NUM_OPCODES_eq)
  show "natural_alignment 0x28 = Inr 4" by (rule natural_alignment_i32_load)
  have "is_power_of_two 2" by code_simp
  then show "validate_alignment 0x28 2 = Inr 2"
    by (simp add: validate_alignment_def natural_alignment_i32_load
        WABT_USE_NATURAL_ALIGNMENT_def)
  show "validate_alignment 0x28 8 = Inl TypeError"
    by (simp add: validate_alignment_def natural_alignment_i32_load
        WABT_USE_NATURAL_ALIGNMENT_def)
  show "validate_alignment 0x28 WABT_USE_NATURAL_ALIGNMENT = Inr 4"
    by (simp add: validate_alignment_def natural_alignment_i32_load
        wabt_get_opcode_alignment_def)
qed

theorem alignment_immediate_validation_witness:
  "wabt_get_opcode_memory_size 0x37 = Inr 8 \<and> (0::int) < 8 \<and>
   natural_alignment 0x37 = Inr 8 \<and>
   (4::32 word) \<noteq> WABT_USE_NATURAL_ALIGNMENT \<and>
   validate_alignment 0x37 4 = Inr 4 \<and>
   (6::32 word) \<noteq> WABT_USE_NATURAL_ALIGNMENT \<and>
   validate_alignment 0x37 6 = Inl TypeError \<and>
   validate_alignment 0x37 WABT_USE_NATURAL_ALIGNMENT = Inr 8"
proof -
  have r: "(WABT_TYPE_VOID, WABT_TYPE_I32, WABT_TYPE_I64, 8, 0x37, ''I64_STORE'', ''i64.store'')
      \<in> set WABT_FOREACH_OPCODE"
    by (simp add: WABT_FOREACH_OPCODE_def)
  have ms: "wabt_get_opcode_memory_size 0x37 = Inr 8"
    using opcode_info_assigned[OF r]
    by (simp add: wabt_get_opcode_memory_size_def WABT_NUM_OPCODES_eq)
  have "largest_power_of_two_le 8 = 8" by (simp add: largest_power_of_two_le.simps)
  then have na: "natural_alignment 0x37 = Inr 8" using ms by (simp add: natural_alignment_def)
  have n4: "(4::32 word) \<noteq> WABT_USE_NATURAL_ALIGNMENT"
    and n6: "(6::32 word) \<noteq> WABT_USE_NATURAL_ALIGNMENT"
    by (simp_all add: WABT_USE_NATURAL_ALIGNMENT_def)
  from alignment_immediate_validation ms
  obtain natural where nat: "natural_alignment 0x37 = Inr natural"
    and s: "validate_alignment 0x37 WABT_USE_NATURAL_ALIGNMENT = Inr natural"
    and v: "\<forall>alignment. alignment \<noteq> WABT_USE_NATURAL_ALIGNMENT \<longrightarrow>
            (validate_alignment 0x37 alignment = Inr alignment) =
              ((\<exists>k. unat alignment = 2 ^ k) \<and> unat alignment \<le> unat natural) \<and>
            (validate_alignment 0x37 alignment \<noteq> Inr alignment \<longrightarrow>
               validate_alignment 0x37 alignment = Inl TypeError)"
    by (meson zero_less_numeral)
  have n8: "natural = 8" using nat na by simp
  have p4: "\<exists>k. unat (4::32 word) = 2 ^ k" by (rule exI[of _ 2]) simp
  have "\<not> is_power_of_two 6" by code_simp
  then have p6: "\<not> (\<exists>k. unat (6::32 word) = 2 ^ k)"
    using is_power_of_two_iff [of 6] by blast
  have v4: "validate_alignment 0x37 4 = Inr 4" using v n4 p4 n8 by simp
  have "validate_alignment 0x37 6 \<noteq> Inr 6" using v n6 p6 by blast
  then have v6: "validate_alignment 0x37 6 = Inl TypeError" using v n6 by blast
  show ?thesis using ms na n4 n6 v4 v6 s n8 by simp
qed

section \<open>Properties of string slices\<close>

lemma strndup_loop_scan:
  assumes "blocks h (block p) = Some bs"
    and "real_len \<le> len"
    and "offset p + (len - real_len) \<le> length bs"
  shows "strndup_loop h p real_len len =
           Some (real_len + length (takeWhile (\<lambda>c. c \<noteq> 0) (take (len - real_len) (drop (offset p) bs))))"
  using assms
proof (induction h p real_len len rule: strndup_loop.induct)
  case (1 h p real_len len)
  show ?case
  proof (cases "real_len < len")
    case False
    then show ?thesis using "1.prems" by (simp add: strndup_loop.simps)
  next
    case True
    then obtain d where d: "len - real_len = Suc d" by (cases "len - real_len") auto
    have inb: "offset p < length bs" using "1.prems"(3) d by simp
    then have ld: "load_byte h p = Some (bs ! offset p)"
      using "1.prems"(1) by (simp add: load_byte_def)
    have dr: "drop (offset p) bs = bs ! offset p # drop (Suc (offset p)) bs"
      using inb by (simp add: Cons_nth_drop_Suc)
    show ?thesis
    proof (cases "bs ! offset p = 0")
      case z: True
      show ?thesis using True ld z d dr
        by (subst strndup_loop.simps) simp
    next
      case nz: False
      have d': "len - (real_len + 1) = d" using d by simp
      have IH: "strndup_loop h (ptr_add p 1) (real_len + 1) len =
          Some (real_len + 1 + length (takeWhile (\<lambda>c. c \<noteq> 0)
                 (take (len - (real_len + 1)) (drop (offset (ptr_add p 1)) bs))))"
        using "1.IH"[OF True ld nz] "1.prems" True d
        by (simp add: ptr_add_def)
      show ?thesis using True ld nz d dr IH d'
        by (subst strndup_loop.simps) (simp add: ptr_add_def)
    qed
  qed
qed

lemma memcpy_blocks:
  assumes "blocks h (block src) = Some sbs"
    and "blocks h (block dst) = Some dbs"
    and "block src \<noteq> block dst"
    and "offset src + n \<le> length sbs"
    and "offset dst + n \<le> length dbs"
  shows "memcpy h dst src n =
           Some (h\<lparr>blocks := (blocks h)(block dst \<mapsto>
                   take (offset dst) dbs @ take n (drop (offset src) sbs) @ drop (offset dst + n) dbs)\<rparr>)"
  using assms
proof (induction n arbitrary: h dst src dbs)
  case 0
  then show ?case by (simp add: fun_upd_idem)
next
  case (Suc n)
  have si: "offset src < length sbs" and di: "offset dst < length dbs"
    using Suc.prems by simp_all
  have ld: "load_byte h src = Some (sbs ! offset src)"
    using Suc.prems(1) si by (simp add: load_byte_def)
  define h' where "h' = h\<lparr>blocks := (blocks h)(block dst \<mapsto> dbs[offset dst := sbs ! offset src])\<rparr>"
  have st: "store_byte h dst (sbs ! offset src) = Some h'"
    using Suc.prems(2) di by (simp add: store_byte_def h'_def)
  have IH: "memcpy h' (ptr_add dst 1) (ptr_add src 1) n =
      Some (h'\<lparr>blocks := (blocks h')(block (ptr_add dst 1) \<mapsto>
              take (offset (ptr_add dst 1)) (dbs[offset dst := sbs ! offset src]) @
              take n (drop (offset (ptr_add src 1)) sbs) @
              drop (offset (ptr_add dst 1) + n) (dbs[offset dst := sbs ! offset src]))\<rparr>)"
    using Suc.prems by (intro Suc.IH) (simp_all add: h'_def ptr_add_def)
  have l1: "take (Suc (offset dst)) (dbs[offset dst := sbs ! offset src]) =
        take (offset dst) dbs @ [sbs ! offset src]"
    using di by (simp add: take_Suc_conv_app_nth)
  have l2: "take (Suc n) (drop (offset src) sbs) = sbs ! offset src # take n (drop (Suc (offset src)) sbs)"
    using si by (simp add: Cons_nth_drop_Suc[symmetric])
  show ?case
    using ld st IH l1 l2 by (simp add: ptr_add_def h'_def) (simp add: fun_upd_def)
qed


lemma takeWhile_take_length:
  "length (takeWhile P (take n xs)) = min n (length (takeWhile P xs))"
  by (induction xs arbitrary: n) (auto simp: take_Cons split: nat.split)

lemma length_takeWhile_less_if_stop:
  "x \<in> set xs \<Longrightarrow> \<not> P x \<Longrightarrow> length (takeWhile P xs) < length xs"
  by (induction xs) auto

lemma wabt_strndup_result:
  assumes wf: "heap_wf h"
    and blk: "blocks h (block s) = Some bs"
    and rd: "offset s + len \<le> length bs"
    and rl: "real_len = min len (length (takeWhile (\<lambda>c. c \<noteq> 0) (drop (offset s) bs)))"
  shows "wabt_strndup h s len =
           Some (\<lparr>blocks = (blocks h)(next_block h \<mapsto> take real_len (drop (offset s) bs) @ [0]),
                  next_block = next_block h + 1\<rparr>,
                 \<lparr>block = next_block h, offset = 0\<rparr>)"
proof -
  let ?buf = "drop (offset s) bs"
  have loop: "strndup_loop h s 0 len = Some real_len"
    using strndup_loop_scan[OF blk, of 0 len] rd rl by (simp add: takeWhile_take_length)
  have fresh: "blocks h (next_block h) = None" using wf by (simp add: heap_wf_def)
  then have ne: "block s \<noteq> next_block h" using blk by auto
  define h1 where "h1 = h\<lparr>blocks := (blocks h)(next_block h \<mapsto> replicate (real_len + 1) 0xAA),
        next_block := next_block h + 1\<rparr>"
  define new_s where "new_s = \<lparr>block = next_block h, offset = 0\<rparr>"
  have al: "wabt_alloc h (real_len + 1) = (h1, new_s)"
    by (simp add: wabt_alloc_def h1_def new_s_def)
  have rll: "real_len \<le> len" using rl by simp
  have mc: "memcpy h1 new_s s real_len =
      Some (h1\<lparr>blocks := (blocks h1)(block new_s \<mapsto>
              take (offset new_s) (replicate (real_len + 1) 0xAA) @ take real_len ?buf @
              drop (offset new_s + real_len) (replicate (real_len + 1) 0xAA))\<rparr>)"
    using ne blk rd rll by (intro memcpy_blocks) (simp_all add: h1_def new_s_def)
  define h2 where "h2 = h1\<lparr>blocks := (blocks h1)(next_block h \<mapsto> take real_len ?buf @ [0xAA])\<rparr>"
  have dr: "drop real_len (replicate (real_len + 1) (0xAA::byte)) = [0xAA]"
    by (induction real_len) simp_all
  have mc': "memcpy h1 new_s s real_len = Some h2"
    using mc dr by (simp add: h2_def new_s_def del: replicate_Suc)
  have len_take: "length (take real_len ?buf) = real_len" using rd rll by simp
  have lu: "(take real_len ?buf @ [0xAA])[real_len := 0] = take real_len ?buf @ [0]"
    by (metis len_take list_update_length)
  have st: "store_byte h2 (ptr_add new_s real_len) 0 =
      Some (h2\<lparr>blocks := (blocks h2)(next_block h \<mapsto> take real_len ?buf @ [0])\<rparr>)"
    using len_take lu by (simp add: store_byte_def ptr_add_def new_s_def h2_def)
  show ?thesis
    using loop al mc' st
    by (simp add: wabt_strndup_def h2_def h1_def new_s_def)
qed

text \<open>
  Claim C9.  In a well-formed heap, for a slice \<open>str\<close> whose \<open>length'\<close> bytes lie inside
  its block, \<^verbatim>\<open>wabt_dup_string_slice\<close> returns a slice that keeps the length field
  of \<open>str\<close> and starts a newly allocated block.  With \<open>buf\<close> the bytes from the start of
  \<open>str\<close> on and \<open>real_len\<close> the smaller of the length of \<open>str\<close> and the position of the
  first NUL byte of \<open>buf\<close>, the new block holds the first \<open>real_len\<close> bytes of \<open>buf\<close>
  (\<open>real_len\<close> bytes indeed) and a NUL terminator, and no other block changes.  When the bytes of \<open>str\<close> have no NUL the
  copy is all of them; when they have one, the length field of the result is greater than
  the number of bytes copied.
\<close>

theorem wabt_dup_string_slice_copies_up_to_first_nul:
  assumes wf: "heap_wf h"
    and blk: "blocks h (block (start str)) = Some bs"
    and rd: "offset (start str) + length' str \<le> length bs"
    and buf: "buf = drop (offset (start str)) bs"
    and rl: "real_len = min (length' str) (length (takeWhile (\<lambda>c. c \<noteq> 0) buf))"
  shows "\<exists>h' r. wabt_dup_string_slice h str = Some (h', r) \<and>
           length' r = length' str \<and>
           start r = \<lparr>block = next_block h, offset = 0\<rparr> \<and>
           blocks h (next_block h) = None \<and>
           blocks h' (next_block h) = Some (take real_len buf @ [0]) \<and>
           length (take real_len buf) = real_len \<and>
           (\<forall>b. b \<noteq> next_block h \<longrightarrow> blocks h' b = blocks h b) \<and>
           heap_wf h' \<and>
           (0 \<notin> set (take (length' str) buf) \<longrightarrow> take real_len buf = take (length' str) buf) \<and>
           (0 \<in> set (take (length' str) buf) \<longrightarrow> real_len < length' r)"
proof -
  define h' where "h' = \<lparr>blocks = (blocks h)(next_block h \<mapsto> take real_len buf @ [0]),
                  next_block = next_block h + 1\<rparr>"
  define r where "r = \<lparr>start = \<lparr>block = next_block h, offset = 0\<rparr>, length' = length' str\<rparr>"
  have rl': "real_len = min (length' str) (length (takeWhile (\<lambda>c. c \<noteq> 0) (drop (offset (start str)) bs)))"
    using rl buf by simp
  have res: "wabt_dup_string_slice h str = Some (h', r)"
    using wabt_strndup_result[OF wf blk rd rl']
    by (simp add: wabt_dup_string_slice_def h'_def r_def buf)
  have fresh: "blocks h (next_block h) = None" using wf by (simp add: heap_wf_def)
  have wf': "heap_wf h'" using wf by (simp add: heap_wf_def h'_def)
  have tw: "length (takeWhile (\<lambda>c. c \<noteq> 0) (take (length' str) buf)) = real_len"
    using rl by (simp add: takeWhile_take_length)
  have nonul: "take real_len buf = take (length' str) buf" if "0 \<notin> set (take (length' str) buf)"
  proof -
    have "takeWhile (\<lambda>c. c \<noteq> 0) (take (length' str) buf) = take (length' str) buf"
      using that by (intro takeWhile_eq_all_conv[THEN iffD2]) auto
    then have "length (takeWhile (\<lambda>c. c \<noteq> 0) (take (length' str) buf)) =
        length (take (length' str) buf)" by (rule arg_cong)
    then have "real_len = length (take (length' str) buf)" by (simp only: tw)
    then show ?thesis by (simp add: min_def)
  qed
  have nul: "real_len < length' str" if "0 \<in> set (take (length' str) buf)"
  proof -
    have "length (takeWhile (\<lambda>c. c \<noteq> 0) (take (length' str) buf)) < length (take (length' str) buf)"
      using that by (rule length_takeWhile_less_if_stop) simp
    then have "real_len < length (take (length' str) buf)" by (simp only: tw)
    then show ?thesis by simp
  qed
  have copied: "length (take real_len buf) = real_len"
    using rl rd buf by simp
  show ?thesis
    using res fresh wf' nonul nul copied
    by (intro exI[of _ h'] exI[of _ r]) (simp add: h'_def r_def)
qed

theorem wabt_dup_string_slice_copies_up_to_first_nul_witness:
  "heap_wf \<lparr>blocks = [0 \<mapsto> [0x61, 0x62, 0x00, 0x63, 0x64]], next_block = 1\<rparr> \<and>
   (\<exists>h' r. wabt_dup_string_slice
              \<lparr>blocks = [0 \<mapsto> [0x61, 0x62, 0x00, 0x63, 0x64]], next_block = 1\<rparr>
              \<lparr>start = \<lparr>block = 0, offset = 0\<rparr>, length' = 5\<rparr> = Some (h', r) \<and>
            length' r = 5 \<and>
            start r = \<lparr>block = 1, offset = 0\<rparr> \<and>
            blocks h' 1 = Some [0x61, 0x62, 0x00] \<and>
            blocks h' 0 = Some [0x61, 0x62, 0x00, 0x63, 0x64])"
proof -
  let ?h = "\<lparr>blocks = [0 \<mapsto> [0x61, 0x62, 0x00, 0x63, 0x64]], next_block = 1\<rparr> :: heap"
  let ?s = "\<lparr>start = \<lparr>block = 0, offset = 0\<rparr>, length' = 5\<rparr>"
  let ?bs = "[0x61, 0x62, 0x00, 0x63, 0x64] :: byte list"
  have wf: "heap_wf ?h"
    by (simp add: heap_wf_def)
  have blk: "blocks ?h (block (start ?s)) = Some ?bs" by simp
  have rd: "offset (start ?s) + length' ?s \<le> length ?bs" by simp
  have buf: "?bs = drop (offset (start ?s)) ?bs" by simp
  have rl: "2 = min (length' ?s) (length (takeWhile (\<lambda>c. c \<noteq> 0) ?bs))" by simp
  from wabt_dup_string_slice_copies_up_to_first_nul [OF wf blk rd buf rl]
  obtain h' r where res: "wabt_dup_string_slice ?h ?s = Some (h', r)"
    and len: "length' r = length' ?s"
    and st: "start r = \<lparr>block = next_block ?h, offset = 0\<rparr>"
    and new: "blocks h' (next_block ?h) = Some (take 2 ?bs @ [0])"
    and old: "\<forall>b. b \<noteq> next_block ?h \<longrightarrow> blocks h' b = blocks ?h b"
    by blast
  have old0: "blocks h' 0 = blocks ?h 0" using old by simp
  have "wabt_dup_string_slice ?h ?s = Some (h', r) \<and> length' r = 5 \<and>
      start r = \<lparr>block = 1, offset = 0\<rparr> \<and> blocks h' 1 = Some [0x61, 0x62, 0x00] \<and>
      blocks h' 0 = Some ?bs"
    using res len st new old0 by simp
  then show ?thesis using wf by blast
qed

section \<open>Properties of branch resolution\<close>

lemma find_label_by_name_Some:
  "find_label_by_name n labels = Some k \<Longrightarrow>
   k < length labels \<and> label_name (labels ! k) = Some n \<and>
   (\<forall>j<k. label_name (labels ! j) \<noteq> Some n)"
proof (induction labels arbitrary: k)
  case Nil
  then show ?case by simp
next
  case (Cons l ls)
  show ?case
  proof (cases "label_name l = Some n")
    case True
    then show ?thesis using Cons.prems by simp
  next
    case False
    then obtain k' where k': "find_label_by_name n ls = Some k'" "k = Suc k'"
      using Cons.prems by auto
    have IH: "k' < length ls \<and> label_name (ls ! k') = Some n \<and>
        (\<forall>j<k'. label_name (ls ! j) \<noteq> Some n)"
      using Cons.IH[OF k'(1)] .
    have "label_name ((l # ls) ! j) \<noteq> Some n" if "j < k" for j
      using that False IH k'(2) by (cases j) auto
    then show ?thesis using IH k'(2) by simp
  qed
qed

lemma find_label_by_name_None:
  "(find_label_by_name n labels = None) = (\<forall>l \<in> set labels. label_name l \<noteq> Some n)"
  by (induction labels) auto

lemma resolve_targets_Inl:
  "resolve_targets labels vs = Inl e \<Longrightarrow>
   e = ResolutionError \<and> (\<exists>v \<in> set vs. resolve_branch_target labels v = Inl ResolutionError)"
proof (induction vs arbitrary: e)
  case Nil
  then show ?case by simp
next
  case (Cons v vs)
  show ?case
  proof (cases "resolve_branch_target labels v")
    case (Inl e')
    then have "e' = ResolutionError"
      by (cases v) (auto split: if_splits option.splits)
    then show ?thesis using Inl Cons.prems by simp
  next
    case (Inr t)
    then show ?thesis using Cons by (auto split: sum.splits)
  qed
qed

lemma resolve_targets_Inr:
  "(\<exists>ts. resolve_targets labels vs = Inr ts) =
   (\<forall>v \<in> set vs. \<exists>t. resolve_branch_target labels v = Inr t)"
  by (induction vs) (auto split: sum.splits)

lemma branch_target_cases:
  "(d < length labels \<longrightarrow>
      resolve_branch_target labels (VarIndex d) = Inr (d, labels ! d)) \<and>
   (length labels \<le> d \<longrightarrow>
      resolve_branch_target labels (VarIndex d) = Inl ResolutionError) \<and>
   ((\<exists>l \<in> set labels. label_name l = Some n) \<longrightarrow>
      (\<exists>k. resolve_branch_target labels (VarName n) = Inr (k, labels ! k) \<and>
           k < length labels \<and> label_name (labels ! k) = Some n \<and>
           (\<forall>j<k. label_name (labels ! j) \<noteq> Some n))) \<and>
   ((\<forall>l \<in> set labels. label_name l \<noteq> Some n) \<longrightarrow>
      resolve_branch_target labels (VarName n) = Inl ResolutionError) \<and>
   resolve_expr labels (Br v) =
     (case resolve_branch_target labels v of Inl e \<Rightarrow> Inl e | Inr t \<Rightarrow> Inr [t]) \<and>
   resolve_expr labels (BrIf v) =
     (case resolve_branch_target labels v of Inl e \<Rightarrow> Inl e | Inr t \<Rightarrow> Inr [t]) \<and>
   (resolve_expr labels (BrTable vs v) = Inl ResolutionError) =
     (\<exists>t \<in> set (vs @ [v]). resolve_branch_target labels t = Inl ResolutionError) \<and>
   resolve_expr labels (Block nm sg [Br (VarIndex 0)]) =
     Inr [(0, \<lparr>label_type = WABT_LABEL_TYPE_BLOCK, label_name = nm, label_sig = sg\<rparr>)] \<and>
   resolve_expr [] (Block None [] [Block None [] [Br (VarIndex 1)]]) =
     Inr [(1, \<lparr>label_type = WABT_LABEL_TYPE_BLOCK, label_name = None, label_sig = []\<rparr>)] \<and>
   resolve_expr [] (Block None [WABT_TYPE_I32] [Block None [] [Br (VarIndex 1)]]) =
     Inr [(1, \<lparr>label_type = WABT_LABEL_TYPE_BLOCK, label_name = None,
               label_sig = [WABT_TYPE_I32]\<rparr>)] \<and>
   resolve_expr [] (Block None [] [Block None [] [Br (VarIndex 2)]]) = Inl ResolutionError"
proof (intro conjI impI)
  assume "\<exists>l \<in> set labels. label_name l = Some n"
  then obtain k where k: "find_label_by_name n labels = Some k"
    using find_label_by_name_None[of n labels] by (cases "find_label_by_name n labels") auto
  then show "\<exists>k. resolve_branch_target labels (VarName n) = Inr (k, labels ! k) \<and>
           k < length labels \<and> label_name (labels ! k) = Some n \<and>
           (\<forall>j<k. label_name (labels ! j) \<noteq> Some n)"
    using find_label_by_name_Some[OF k] by simp
next
  assume "\<forall>l \<in> set labels. label_name l \<noteq> Some n"
  then have "find_label_by_name n labels = None" by (simp add: find_label_by_name_None)
  then show "resolve_branch_target labels (VarName n) = Inl ResolutionError" by simp
next
  show "(resolve_expr labels (BrTable vs v) = Inl ResolutionError) =
     (\<exists>t \<in> set (vs @ [v]). resolve_branch_target labels t = Inl ResolutionError)"
  proof
    assume "resolve_expr labels (BrTable vs v) = Inl ResolutionError"
    then show "\<exists>t \<in> set (vs @ [v]). resolve_branch_target labels t = Inl ResolutionError"
      using resolve_targets_Inl[of labels "vs @ [v]" ResolutionError] by simp
  next
    assume "\<exists>t \<in> set (vs @ [v]). resolve_branch_target labels t = Inl ResolutionError"
    then have "\<not> (\<exists>ts. resolve_targets labels (vs @ [v]) = Inr ts)"
      unfolding resolve_targets_Inr by fastforce
    then obtain e where e: "resolve_targets labels (vs @ [v]) = Inl e"
      by (cases "resolve_targets labels (vs @ [v])") auto
    then show "resolve_expr labels (BrTable vs v) = Inl ResolutionError"
      using resolve_targets_Inl[OF e] by simp
  qed
qed (simp_all split: sum.split)

lemma resolve_branch_target_Inr:
  "resolve_branch_target ls v = Inr t \<Longrightarrow> \<exists>d. d < length ls \<and> t = (d, ls ! d)"
proof (cases v)
  case (VarIndex d)
  assume "resolve_branch_target ls v = Inr t"
  then show ?thesis using VarIndex by (auto split: if_splits)
next
  case (VarName n)
  assume r: "resolve_branch_target ls v = Inr t"
  then obtain k where k: "find_label_by_name n ls = Some k" "t = (k, ls ! k)"
    using VarName by (auto split: option.splits)
  then show ?thesis using find_label_by_name_Some[OF k(1)] by blast
qed

lemma resolve_branch_target_Inl:
  "resolve_branch_target ls v = Inl e \<Longrightarrow> e = ResolutionError"
  by (cases v) (auto split: if_splits option.splits)

lemma resolve_targets_set:
  "resolve_targets labels vs = Inr ts \<Longrightarrow>
   set ts = {t. \<exists>v \<in> set vs. resolve_branch_target labels v = Inr t}"
proof (induction vs arbitrary: ts)
  case Nil
  then show ?case by simp
next
  case (Cons v vs)
  from Cons.prems obtain t ts' where t: "resolve_branch_target labels v = Inr t"
    and ts': "resolve_targets labels vs = Inr ts'" and eq: "ts = t # ts'"
    by (auto split: sum.splits)
  show ?case using Cons.IH[OF ts'] t eq by auto
qed

lemma branch_site_Br: "branch_site labels (Br v) ls w = (ls = labels \<and> w = v)"
  by (auto simp: branch_site_def elim: open_labels_at.cases intro: open_labels_at.here)

lemma branch_site_BrIf: "branch_site labels (BrIf v) ls w = (ls = labels \<and> w = v)"
  by (auto simp: branch_site_def elim: open_labels_at.cases intro: open_labels_at.here)

lemma branch_site_BrTable:
  "branch_site labels (BrTable vs v) ls w = (ls = labels \<and> w \<in> set (vs @ [v]))"
  by (auto simp: branch_site_def elim: open_labels_at.cases intro: open_labels_at.here)

lemma branch_site_Plain: "branch_site labels (Plain opcode) ls w = False"
  by (auto simp: branch_site_def elim: open_labels_at.cases)

lemma branch_site_Block:
  "branch_site labels (Block n s body) ls w =
     (\<exists>e \<in> set body. branch_site
        (\<lparr>label_type = WABT_LABEL_TYPE_BLOCK, label_name = n, label_sig = s\<rparr> # labels) e ls w)"
  unfolding branch_site_def
  by (subst open_labels_at.simps) auto

lemma branch_site_Loop:
  "branch_site labels (Loop n s body) ls w =
     (\<exists>e \<in> set body. branch_site
        (\<lparr>label_type = WABT_LABEL_TYPE_LOOP, label_name = n, label_sig = s\<rparr> # labels) e ls w)"
  unfolding branch_site_def
  by (subst open_labels_at.simps) auto

lemma branch_site_If:
  "branch_site labels (If n s then_body else_body) ls w =
     ((\<exists>e \<in> set then_body. branch_site
        (\<lparr>label_type = WABT_LABEL_TYPE_IF, label_name = n, label_sig = s\<rparr> # labels) e ls w) \<or>
      (\<exists>e \<in> set else_body. branch_site
        (\<lparr>label_type = WABT_LABEL_TYPE_ELSE, label_name = n, label_sig = s\<rparr> # labels) e ls w))"
  unfolding branch_site_def
  by (subst open_labels_at.simps) auto

lemma resolve_targets_sound:
  "(\<forall>ts. resolve_targets labels vs = Inr ts \<longrightarrow>
      (\<forall>v \<in> set vs. \<exists>t. resolve_branch_target labels v = Inr t) \<and>
      set ts = {t. \<exists>v \<in> set vs. resolve_branch_target labels v = Inr t}) \<and>
   (\<forall>err. resolve_targets labels vs = Inl err \<longrightarrow>
      err = ResolutionError \<and>
      (\<exists>v \<in> set vs. resolve_branch_target labels v = Inl ResolutionError))"
  using resolve_targets_set[of labels vs] resolve_targets_Inr[of labels vs]
    resolve_targets_Inl[of labels vs]
  by blast

lemma resolve_walk:
  "(\<forall>ts. resolve_expr labels e = Inr ts \<longrightarrow>
      (\<forall>ls v. branch_site labels e ls v \<longrightarrow> (\<exists>t. resolve_branch_target ls v = Inr t)) \<and>
      set ts = {t. \<exists>ls v. branch_site labels e ls v \<and> resolve_branch_target ls v = Inr t}) \<and>
   (\<forall>err. resolve_expr labels e = Inl err \<longrightarrow>
      err = ResolutionError \<and>
      (\<exists>ls v. branch_site labels e ls v \<and> resolve_branch_target ls v = Inl ResolutionError))"
  and resolve_walk_body:
  "(\<forall>ts. resolve_exprs labels es = Inr ts \<longrightarrow>
      (\<forall>e \<in> set es. \<forall>ls v. branch_site labels e ls v \<longrightarrow>
         (\<exists>t. resolve_branch_target ls v = Inr t)) \<and>
      set ts = {t. \<exists>e \<in> set es. \<exists>ls v. branch_site labels e ls v \<and>
                  resolve_branch_target ls v = Inr t}) \<and>
   (\<forall>err. resolve_exprs labels es = Inl err \<longrightarrow>
      err = ResolutionError \<and>
      (\<exists>e \<in> set es. \<exists>ls v. branch_site labels e ls v \<and>
         resolve_branch_target ls v = Inl ResolutionError))"
proof (induction labels e and labels es rule: resolve_expr_resolve_exprs.induct)
  case (1 labels n s body)
  then show ?case by (simp add: branch_site_Block; blast?)
next
  case (2 labels n s body)
  then show ?case by (simp add: branch_site_Loop; blast?)
next
  case (3 labels n s then_body else_body)
  let ?t = "resolve_exprs (\<lparr>label_type = WABT_LABEL_TYPE_IF, label_name = n, label_sig = s\<rparr> # labels) then_body"
  let ?f = "resolve_exprs (\<lparr>label_type = WABT_LABEL_TYPE_ELSE, label_name = n, label_sig = s\<rparr> # labels) else_body"
  show ?case
  proof (cases ?t)
    case (Inl err)
    then show ?thesis using "3.IH"(1) by (simp add: branch_site_If; blast?)
  next
    case t: (Inr ts)
    show ?thesis
    proof (cases ?f)
      case (Inl err)
      then show ?thesis using t "3.IH"(2)[OF t] by (simp add: branch_site_If; blast?)
    next
      case f: (Inr fs)
      have a: "(\<forall>e \<in> set then_body. \<forall>ls v. branch_site (\<lparr>label_type = WABT_LABEL_TYPE_IF, label_name = n, label_sig = s\<rparr> # labels) e ls v \<longrightarrow>
         (\<exists>t. resolve_branch_target ls v = Inr t))"
        and a': "set ts = {t. \<exists>e \<in> set then_body. \<exists>ls v. branch_site (\<lparr>label_type = WABT_LABEL_TYPE_IF, label_name = n, label_sig = s\<rparr> # labels) e ls v \<and>
                  resolve_branch_target ls v = Inr t}"
        using "3.IH"(1) t by blast+
      have b: "(\<forall>e \<in> set else_body. \<forall>ls v. branch_site (\<lparr>label_type = WABT_LABEL_TYPE_ELSE, label_name = n, label_sig = s\<rparr> # labels) e ls v \<longrightarrow>
         (\<exists>t. resolve_branch_target ls v = Inr t))"
        and b': "set fs = {t. \<exists>e \<in> set else_body. \<exists>ls v. branch_site (\<lparr>label_type = WABT_LABEL_TYPE_ELSE, label_name = n, label_sig = s\<rparr> # labels) e ls v \<and>
                  resolve_branch_target ls v = Inr t}"
        using "3.IH"(2)[OF t] f by blast+
      have r: "resolve_expr labels (If n s then_body else_body) = Inr (ts @ fs)"
        using t f by simp
      have all: "\<forall>ls v. branch_site labels (If n s then_body else_body) ls v \<longrightarrow>
          (\<exists>t. resolve_branch_target ls v = Inr t)"
        using a b by (simp add: branch_site_If; blast?)
      have st: "set (ts @ fs) = {t. \<exists>ls v. branch_site labels (If n s then_body else_body) ls v \<and>
          resolve_branch_target ls v = Inr t}"
        unfolding set_append a' b' by (auto simp: branch_site_If)
      show ?thesis using r all st by simp
    qed
  qed
next
  case (4 labels v)
  then show ?case using resolve_targets_sound[of labels "[v]"] by (simp add: branch_site_Br)
next
  case (5 labels v)
  then show ?case using resolve_targets_sound[of labels "[v]"] by (simp add: branch_site_BrIf)
next
  case (6 labels vs v)
  then show ?case using resolve_targets_sound[of labels "vs @ [v]"]
    by (simp add: branch_site_BrTable; blast?)
next
  case (7 labels opcode)
  then show ?case by (simp add: branch_site_Plain)
next
  case (8 labels)
  then show ?case by simp
next
  case (9 labels e es)
  show ?case
  proof (cases "resolve_expr labels e")
    case (Inl err)
    then show ?thesis using "9.IH"(1) by (simp; blast?)
  next
    case t: (Inr ts)
    show ?thesis
    proof (cases "resolve_exprs labels es")
      case (Inl err)
      then show ?thesis using t "9.IH"(2)[OF t] by (simp; blast?)
    next
      case f: (Inr ts')
      have a: "\<forall>ls v. branch_site labels e ls v \<longrightarrow> (\<exists>t. resolve_branch_target ls v = Inr t)"
        and a': "set ts = {t. \<exists>ls v. branch_site labels e ls v \<and> resolve_branch_target ls v = Inr t}"
        using "9.IH"(1) t by blast+
      have b: "\<forall>e \<in> set es. \<forall>ls v. branch_site labels e ls v \<longrightarrow>
         (\<exists>t. resolve_branch_target ls v = Inr t)"
        and b': "set ts' = {t. \<exists>e \<in> set es. \<exists>ls v. branch_site labels e ls v \<and>
                  resolve_branch_target ls v = Inr t}"
        using "9.IH"(2)[OF t] f by blast+
      have r: "resolve_exprs labels (e # es) = Inr (ts @ ts')" using t f by simp
      have all: "\<forall>e' \<in> set (e # es). \<forall>ls v. branch_site labels e' ls v \<longrightarrow>
          (\<exists>t. resolve_branch_target ls v = Inr t)"
        using a b by simp
      have st: "set (ts @ ts') = {t. \<exists>e' \<in> set (e # es). \<exists>ls v. branch_site labels e' ls v \<and>
          resolve_branch_target ls v = Inr t}"
        unfolding set_append a' b' by auto
      show ?thesis using r all st by simp
    qed
  qed
qed


lemma resolve_expr_Inr_site:
  assumes "resolve_expr labels e = Inr ts" and "branch_site labels e ls v"
  shows "\<exists>t. resolve_branch_target ls v = Inr t"
  using resolve_walk [of labels e, THEN conjunct1, THEN spec, THEN mp, OF assms(1),
      THEN conjunct1, THEN spec, THEN spec, THEN mp, OF assms(2)] .

lemma resolve_expr_Inr_set:
  assumes "resolve_expr labels e = Inr ts"
  shows "set ts = {t. \<exists>ls v. branch_site labels e ls v \<and> resolve_branch_target ls v = Inr t}"
  using resolve_walk [of labels e, THEN conjunct1, THEN spec, THEN mp, OF assms(1),
      THEN conjunct2] .

lemma resolve_expr_Inl:
  assumes "resolve_expr labels e = Inl err"
  shows "err = ResolutionError \<and>
      (\<exists>ls v. branch_site labels e ls v \<and> resolve_branch_target ls v = Inl ResolutionError)"
  using resolve_walk [of labels e, THEN conjunct2, THEN spec, THEN mp, OF assms(1)] .

lemma resolve_exprs_Inr_site:
  assumes "resolve_exprs labels es = Inr ts" and "e \<in> set es" and "branch_site labels e ls v"
  shows "\<exists>t. resolve_branch_target ls v = Inr t"
  using resolve_walk_body [of labels es, THEN conjunct1, THEN spec, THEN mp, OF assms(1),
      THEN conjunct1, THEN bspec, OF assms(2), THEN spec, THEN spec, THEN mp, OF assms(3)] .

lemma resolve_exprs_Inr_set:
  assumes "resolve_exprs labels es = Inr ts"
  shows "set ts = {t. \<exists>e \<in> set es. \<exists>ls v. branch_site labels e ls v \<and>
                  resolve_branch_target ls v = Inr t}"
  using resolve_walk_body [of labels es, THEN conjunct1, THEN spec, THEN mp, OF assms(1),
      THEN conjunct2] .

lemma resolve_exprs_Inl:
  assumes "resolve_exprs labels es = Inl err"
  shows "err = ResolutionError \<and>
      (\<exists>e \<in> set es. \<exists>ls v. branch_site labels e ls v \<and>
         resolve_branch_target ls v = Inl ResolutionError)"
  using resolve_walk_body [of labels es, THEN conjunct2, THEN spec, THEN mp, OF assms(1)] .

text \<open>
  Claim C3.  Let \<open>outer\<close> be the labels open where a body starts.  Every branch site of
  the body, under whatever nesting of blocks, loops and ifs and at whatever position,
  is resolved against the labels open at that site (\<open>ls\<close>, innermost first): when the
  walk succeeds, every target of every \<open>br\<close>, \<open>br_if\<close> and \<open>br_table\<close> resolved to a
  depth below the number of open labels and to the label at that depth, and the walk
  returns exactly these resolutions; the walk fails exactly when some site does not
  resolve, and then with a ResolutionError.  At one site, with \<open>labels\<close> open: a depth
  below the number of open labels resolves to the label at that depth, a depth from that
  number on is a ResolutionError; a name that some open label carries resolves to the
  innermost label with that name, a name that none carries is a ResolutionError.  In
  \<open>(block (block (br 1)))\<close>, with no label open around it, depth 1 is the outer block
  (told apart here by its signature) and depth 2 is a ResolutionError.
\<close>

theorem branch_target_resolution:
  "(\<forall>ls w. resolve_expr outer e = Inr ts \<and> branch_site outer e ls w \<longrightarrow>
      (\<exists>k. k < length ls \<and> resolve_branch_target ls w = Inr (k, ls ! k) \<and>
           (k, ls ! k) \<in> set ts)) \<and>
   (resolve_expr outer e = Inr ts \<longrightarrow>
      set ts = {t. \<exists>ls w. branch_site outer e ls w \<and> resolve_branch_target ls w = Inr t}) \<and>
   (resolve_expr outer e = Inl err) =
     (err = ResolutionError \<and>
      (\<exists>ls w. branch_site outer e ls w \<and>
         resolve_branch_target ls w = Inl ResolutionError)) \<and>
   (\<forall>ls w. resolve_exprs outer body = Inr ts \<and>
      (\<exists>i \<in> set body. branch_site outer i ls w) \<longrightarrow>
      (\<exists>k. k < length ls \<and> resolve_branch_target ls w = Inr (k, ls ! k) \<and>
           (k, ls ! k) \<in> set ts)) \<and>
   (resolve_exprs outer body = Inl err) =
     (err = ResolutionError \<and>
      (\<exists>i \<in> set body. \<exists>ls w. branch_site outer i ls w \<and>
         resolve_branch_target ls w = Inl ResolutionError)) \<and>
   (d < length labels \<longrightarrow>
      resolve_branch_target labels (VarIndex d) = Inr (d, labels ! d)) \<and>
   (length labels \<le> d \<longrightarrow>
      resolve_branch_target labels (VarIndex d) = Inl ResolutionError) \<and>
   ((\<exists>l \<in> set labels. label_name l = Some n) \<longrightarrow>
      (\<exists>k. resolve_branch_target labels (VarName n) = Inr (k, labels ! k) \<and>
           k < length labels \<and> label_name (labels ! k) = Some n \<and>
           (\<forall>j<k. label_name (labels ! j) \<noteq> Some n))) \<and>
   ((\<forall>l \<in> set labels. label_name l \<noteq> Some n) \<longrightarrow>
      resolve_branch_target labels (VarName n) = Inl ResolutionError) \<and>
   resolve_expr labels (Br v) =
     (case resolve_branch_target labels v of Inl e \<Rightarrow> Inl e | Inr t \<Rightarrow> Inr [t]) \<and>
   resolve_expr labels (BrIf v) =
     (case resolve_branch_target labels v of Inl e \<Rightarrow> Inl e | Inr t \<Rightarrow> Inr [t]) \<and>
   (resolve_expr labels (BrTable vs v) = Inl ResolutionError) =
     (\<exists>t \<in> set (vs @ [v]). resolve_branch_target labels t = Inl ResolutionError) \<and>
   resolve_expr labels (Block nm sg [Br (VarIndex 0)]) =
     Inr [(0, \<lparr>label_type = WABT_LABEL_TYPE_BLOCK, label_name = nm, label_sig = sg\<rparr>)] \<and>
   resolve_expr [] (Block None [] [Block None [] [Br (VarIndex 1)]]) =
     Inr [(1, \<lparr>label_type = WABT_LABEL_TYPE_BLOCK, label_name = None, label_sig = []\<rparr>)] \<and>
   resolve_expr [] (Block None [WABT_TYPE_I32] [Block None [] [Br (VarIndex 1)]]) =
     Inr [(1, \<lparr>label_type = WABT_LABEL_TYPE_BLOCK, label_name = None,
               label_sig = [WABT_TYPE_I32]\<rparr>)] \<and>
   resolve_expr [] (Block None [] [Block None [] [Br (VarIndex 2)]]) = Inl ResolutionError"
proof -
  have walk_ok: "\<forall>ls w. resolve_expr outer e = Inr ts \<and> branch_site outer e ls w \<longrightarrow>
      (\<exists>k. k < length ls \<and> resolve_branch_target ls w = Inr (k, ls ! k) \<and>
           (k, ls ! k) \<in> set ts)"
  proof (intro allI impI, elim conjE)
    fix ls w
    assume r: "resolve_expr outer e = Inr ts" and b: "branch_site outer e ls w"
    obtain t where t: "resolve_branch_target ls w = Inr t"
      using resolve_expr_Inr_site[OF r b] ..
    obtain k where k: "k < length ls" "t = (k, ls ! k)"
      using resolve_branch_target_Inr[OF t] by auto
    have "t \<in> {t. \<exists>ls v. branch_site outer e ls v \<and> resolve_branch_target ls v = Inr t}"
      using b t by auto
    then have "t \<in> set ts" by (simp only: resolve_expr_Inr_set[OF r])
    then show "\<exists>k. k < length ls \<and> resolve_branch_target ls w = Inr (k, ls ! k) \<and>
           (k, ls ! k) \<in> set ts"
      using k t by auto
  qed
  have walk_set: "resolve_expr outer e = Inr ts \<longrightarrow>
      set ts = {t. \<exists>ls w. branch_site outer e ls w \<and> resolve_branch_target ls w = Inr t}"
    using resolve_expr_Inr_set by (intro impI)
  have walk_err: "(resolve_expr outer e = Inl err) =
     (err = ResolutionError \<and>
      (\<exists>ls w. branch_site outer e ls w \<and>
         resolve_branch_target ls w = Inl ResolutionError))"
  proof
    assume "resolve_expr outer e = Inl err"
    then show "err = ResolutionError \<and>
      (\<exists>ls w. branch_site outer e ls w \<and> resolve_branch_target ls w = Inl ResolutionError)"
      by (rule resolve_expr_Inl)
  next
    assume a: "err = ResolutionError \<and>
      (\<exists>ls w. branch_site outer e ls w \<and> resolve_branch_target ls w = Inl ResolutionError)"
    then obtain ls w where b: "branch_site outer e ls w"
      and f: "resolve_branch_target ls w = Inl ResolutionError" by auto
    show "resolve_expr outer e = Inl err"
    proof (cases "resolve_expr outer e")
      case (Inl err')
      then have "err' = ResolutionError" using resolve_expr_Inl by blast
      then show ?thesis using Inl a by simp
    next
      case (Inr ts')
      then obtain t where "resolve_branch_target ls w = Inr t"
        using resolve_expr_Inr_site[OF Inr b] by auto
      then show ?thesis using f by simp
    qed
  qed
  have body_ok: "\<forall>ls w. resolve_exprs outer body = Inr ts \<and>
      (\<exists>i \<in> set body. branch_site outer i ls w) \<longrightarrow>
      (\<exists>k. k < length ls \<and> resolve_branch_target ls w = Inr (k, ls ! k) \<and>
           (k, ls ! k) \<in> set ts)"
  proof (intro allI impI, elim conjE bexE)
    fix ls w i
    assume r: "resolve_exprs outer body = Inr ts" and i: "i \<in> set body"
      and b: "branch_site outer i ls w"
    obtain t where t: "resolve_branch_target ls w = Inr t"
      using resolve_exprs_Inr_site[OF r i b] ..
    obtain k where k: "k < length ls" "t = (k, ls ! k)"
      using resolve_branch_target_Inr[OF t] by auto
    have "t \<in> {t. \<exists>e \<in> set body. \<exists>ls v. branch_site outer e ls v \<and>
                  resolve_branch_target ls v = Inr t}"
      using i b t by auto
    then have "t \<in> set ts" by (simp only: resolve_exprs_Inr_set[OF r])
    then show "\<exists>k. k < length ls \<and> resolve_branch_target ls w = Inr (k, ls ! k) \<and>
           (k, ls ! k) \<in> set ts"
      using k t by auto
  qed
  have body_err: "(resolve_exprs outer body = Inl err) =
     (err = ResolutionError \<and>
      (\<exists>i \<in> set body. \<exists>ls w. branch_site outer i ls w \<and>
         resolve_branch_target ls w = Inl ResolutionError))"
  proof
    assume "resolve_exprs outer body = Inl err"
    then show "err = ResolutionError \<and>
      (\<exists>i \<in> set body. \<exists>ls w. branch_site outer i ls w \<and>
         resolve_branch_target ls w = Inl ResolutionError)"
      by (rule resolve_exprs_Inl)
  next
    assume a: "err = ResolutionError \<and>
      (\<exists>i \<in> set body. \<exists>ls w. branch_site outer i ls w \<and>
         resolve_branch_target ls w = Inl ResolutionError)"
    then obtain i ls w where i: "i \<in> set body" and b: "branch_site outer i ls w"
      and f: "resolve_branch_target ls w = Inl ResolutionError" by auto
    show "resolve_exprs outer body = Inl err"
    proof (cases "resolve_exprs outer body")
      case (Inl err')
      then have "err' = ResolutionError" using resolve_exprs_Inl by blast
      then show ?thesis using Inl a by simp
    next
      case (Inr ts')
      then obtain t where "resolve_branch_target ls w = Inr t"
        using resolve_exprs_Inr_site[OF Inr i b] by auto
      then show ?thesis using f by simp
    qed
  qed
  note site = branch_target_cases [of d labels n v vs nm sg]
  note walk = conjI [OF walk_ok conjI [OF walk_set conjI [OF walk_err conjI [OF body_ok body_err]]]]
  show ?thesis
    by (rule conjI [OF walk site, unfolded conj_assoc])
qed

theorem branch_target_resolution_witness:
  "resolve_branch_target
     [\<lparr>label_type = WABT_LABEL_TYPE_LOOP, label_name = None, label_sig = []\<rparr>,
      \<lparr>label_type = WABT_LABEL_TYPE_BLOCK, label_name = Some ''$a'', label_sig = []\<rparr>,
      \<lparr>label_type = WABT_LABEL_TYPE_BLOCK, label_name = Some ''$a'', label_sig = [WABT_TYPE_I32]\<rparr>]
     (VarIndex 2) =
   Inr (2, \<lparr>label_type = WABT_LABEL_TYPE_BLOCK, label_name = Some ''$a'', label_sig = [WABT_TYPE_I32]\<rparr>) \<and>
   resolve_branch_target
     [\<lparr>label_type = WABT_LABEL_TYPE_LOOP, label_name = None, label_sig = []\<rparr>,
      \<lparr>label_type = WABT_LABEL_TYPE_BLOCK, label_name = Some ''$a'', label_sig = []\<rparr>,
      \<lparr>label_type = WABT_LABEL_TYPE_BLOCK, label_name = Some ''$a'', label_sig = [WABT_TYPE_I32]\<rparr>]
     (VarIndex 3) = Inl ResolutionError \<and>
   resolve_branch_target
     [\<lparr>label_type = WABT_LABEL_TYPE_LOOP, label_name = None, label_sig = []\<rparr>,
      \<lparr>label_type = WABT_LABEL_TYPE_BLOCK, label_name = Some ''$a'', label_sig = []\<rparr>,
      \<lparr>label_type = WABT_LABEL_TYPE_BLOCK, label_name = Some ''$a'', label_sig = [WABT_TYPE_I32]\<rparr>]
     (VarName ''$a'') =
   Inr (1, \<lparr>label_type = WABT_LABEL_TYPE_BLOCK, label_name = Some ''$a'', label_sig = []\<rparr>) \<and>
   resolve_branch_target
     [\<lparr>label_type = WABT_LABEL_TYPE_LOOP, label_name = None, label_sig = []\<rparr>,
      \<lparr>label_type = WABT_LABEL_TYPE_BLOCK, label_name = Some ''$a'', label_sig = []\<rparr>,
      \<lparr>label_type = WABT_LABEL_TYPE_BLOCK, label_name = Some ''$a'', label_sig = [WABT_TYPE_I32]\<rparr>]
     (VarName ''$b'') = Inl ResolutionError \<and>
   resolve_expr []
     (Block (Some ''$a'') []
        [Loop None []
           [If None [] [Plain 1, Br (VarIndex 2)]
              [BrTable [VarIndex 0, VarName ''$a''] (VarIndex 1)]],
         BrIf (VarIndex 0)]) =
   Inr [(2, \<lparr>label_type = WABT_LABEL_TYPE_BLOCK, label_name = Some ''$a'', label_sig = []\<rparr>),
      (0, \<lparr>label_type = WABT_LABEL_TYPE_ELSE, label_name = None, label_sig = []\<rparr>),
      (2, \<lparr>label_type = WABT_LABEL_TYPE_BLOCK, label_name = Some ''$a'', label_sig = []\<rparr>),
      (1, \<lparr>label_type = WABT_LABEL_TYPE_LOOP, label_name = None, label_sig = []\<rparr>),
      (0, \<lparr>label_type = WABT_LABEL_TYPE_BLOCK, label_name = Some ''$a'', label_sig = []\<rparr>)] \<and>
   branch_site []
     (Block (Some ''$a'') []
        [Loop None []
           [If None [] [Plain 1, Br (VarIndex 2)]
              [BrTable [VarIndex 0, VarName ''$a''] (VarIndex 1)]],
         BrIf (VarIndex 0)])
     [\<lparr>label_type = WABT_LABEL_TYPE_IF, label_name = None, label_sig = []\<rparr>,
      \<lparr>label_type = WABT_LABEL_TYPE_LOOP, label_name = None, label_sig = []\<rparr>,
      \<lparr>label_type = WABT_LABEL_TYPE_BLOCK, label_name = Some ''$a'', label_sig = []\<rparr>]
     (VarIndex 2) \<and>
   resolve_branch_target
     [\<lparr>label_type = WABT_LABEL_TYPE_IF, label_name = None, label_sig = []\<rparr>,
      \<lparr>label_type = WABT_LABEL_TYPE_LOOP, label_name = None, label_sig = []\<rparr>,
      \<lparr>label_type = WABT_LABEL_TYPE_BLOCK, label_name = Some ''$a'', label_sig = []\<rparr>]
     (VarIndex 2) =
   Inr (2, \<lparr>label_type = WABT_LABEL_TYPE_BLOCK, label_name = Some ''$a'', label_sig = []\<rparr>) \<and>
   branch_site [] (Loop None [] [Plain 1, Br (VarIndex 1)])
     [\<lparr>label_type = WABT_LABEL_TYPE_LOOP, label_name = None, label_sig = []\<rparr>] (VarIndex 1) \<and>
   resolve_branch_target [\<lparr>label_type = WABT_LABEL_TYPE_LOOP, label_name = None, label_sig = []\<rparr>] (VarIndex 1) = Inl ResolutionError \<and>
   resolve_expr [] (Loop None [] [Plain 1, Br (VarIndex 1)]) = Inl ResolutionError"
proof -
  let ?ls = "[\<lparr>label_type = WABT_LABEL_TYPE_LOOP, label_name = None, label_sig = []\<rparr>,
      \<lparr>label_type = WABT_LABEL_TYPE_BLOCK, label_name = Some ''$a'', label_sig = []\<rparr>,
      \<lparr>label_type = WABT_LABEL_TYPE_BLOCK, label_name = Some ''$a'', label_sig = [WABT_TYPE_I32]\<rparr>]"
  have d2: "2 < length ?ls" and d3: "length ?ls \<le> 3" by simp_all
  have a: "\<exists>l \<in> set ?ls. label_name l = Some ''$a''" by simp
  have b: "\<forall>l \<in> set ?ls. label_name l \<noteq> Some ''$b''" by simp
  have r2: "resolve_branch_target ?ls (VarIndex 2) = Inr (2, ?ls ! 2)"
    using d2 branch_target_resolution
      [where d = 2 and labels = ?ls,
       THEN conjunct2, THEN conjunct2, THEN conjunct2, THEN conjunct2, THEN conjunct2] by blast
  have r3: "resolve_branch_target ?ls (VarIndex 3) = Inl ResolutionError"
    using d3 branch_target_resolution
      [where d = 3 and labels = ?ls,
       THEN conjunct2, THEN conjunct2, THEN conjunct2, THEN conjunct2, THEN conjunct2] by blast
  obtain k where k: "resolve_branch_target ?ls (VarName ''$a'') = Inr (k, ?ls ! k)"
    "k < length ?ls" "label_name (?ls ! k) = Some ''$a''"
    "\<forall>j<k. label_name (?ls ! j) \<noteq> Some ''$a''"
    using a branch_target_resolution
      [where labels = ?ls and n = "''$a''",
       THEN conjunct2, THEN conjunct2, THEN conjunct2, THEN conjunct2, THEN conjunct2] by blast
  have "k = 1"
  proof -
    have "\<not> 1 < k"
    proof
      assume "1 < k"
      then have "label_name (?ls ! 1) \<noteq> Some ''$a''" using k(4) by blast
      then show False by simp
    qed
    moreover have "k \<noteq> 0"
    proof
      assume "k = 0"
      then have "label_name (?ls ! 0) = Some ''$a''" using k(3) by simp
      then show False by simp
    qed
    ultimately show ?thesis by linarith
  qed
  then have ra: "resolve_branch_target ?ls (VarName ''$a'') = Inr (1, ?ls ! 1)" using k(1) by simp
  have rb: "resolve_branch_target ?ls (VarName ''$b'') = Inl ResolutionError"
    using b branch_target_resolution
      [where labels = ?ls and n = "''$b''",
       THEN conjunct2, THEN conjunct2, THEN conjunct2, THEN conjunct2, THEN conjunct2] by blast
  let ?e = "Block (Some ''$a'') []
        [Loop None []
           [If None [] [Plain 1, Br (VarIndex 2)]
              [BrTable [VarIndex 0, VarName ''$a''] (VarIndex 1)]],
         BrIf (VarIndex 0)]"
  let ?ts = "[(2, \<lparr>label_type = WABT_LABEL_TYPE_BLOCK, label_name = Some ''$a'', label_sig = []\<rparr>),
      (0, \<lparr>label_type = WABT_LABEL_TYPE_ELSE, label_name = None, label_sig = []\<rparr>),
      (2, \<lparr>label_type = WABT_LABEL_TYPE_BLOCK, label_name = Some ''$a'', label_sig = []\<rparr>),
      (1, \<lparr>label_type = WABT_LABEL_TYPE_LOOP, label_name = None, label_sig = []\<rparr>),
      (0, \<lparr>label_type = WABT_LABEL_TYPE_BLOCK, label_name = Some ''$a'', label_sig = []\<rparr>)]"
  let ?site = "[\<lparr>label_type = WABT_LABEL_TYPE_IF, label_name = None, label_sig = []\<rparr>,
      \<lparr>label_type = WABT_LABEL_TYPE_LOOP, label_name = None, label_sig = []\<rparr>,
      \<lparr>label_type = WABT_LABEL_TYPE_BLOCK, label_name = Some ''$a'', label_sig = []\<rparr>]"
  let ?e2 = "Loop None [] [Plain 1, Br (VarIndex 1)]"
  let ?site2 = "[\<lparr>label_type = WABT_LABEL_TYPE_LOOP, label_name = None, label_sig = []\<rparr>]"
  have r: "resolve_expr [] ?e = Inr ?ts" by simp
  have b: "branch_site [] ?e ?site (VarIndex 2)"
    by (simp add: branch_site_Block branch_site_Loop branch_site_If branch_site_Br
        branch_site_Plain)
  have "\<forall>ls w. resolve_expr [] ?e = Inr ?ts \<and> branch_site [] ?e ls w \<longrightarrow>
      (\<exists>k. k < length ls \<and> resolve_branch_target ls w = Inr (k, ls ! k) \<and>
           (k, ls ! k) \<in> set ?ts)"
    by (rule branch_target_resolution
        [where outer = "[]" and e = ?e and ts = ?ts, THEN conjunct1])
  then obtain k where k: "k < length ?site"
    "resolve_branch_target ?site (VarIndex 2) = Inr (k, ?site ! k)"
    using r b by blast
  have k2: "k = 2" using k(2) by simp
  have s: "resolve_branch_target ?site (VarIndex 2) = Inr (2, ?site ! 2)"
    using k(2) k2 by simp
  have b2: "branch_site [] ?e2 ?site2 (VarIndex 1)"
    by (simp add: branch_site_Loop branch_site_Br branch_site_Plain)
  have f2: "resolve_branch_target ?site2 (VarIndex 1) = Inl ResolutionError" by simp
  have "(resolve_expr [] ?e2 = Inl ResolutionError) =
     (ResolutionError = ResolutionError \<and>
      (\<exists>ls w. branch_site [] ?e2 ls w \<and>
         resolve_branch_target ls w = Inl ResolutionError))"
    by (rule branch_target_resolution
        [where outer = "[]" and e = ?e2 and err = ResolutionError,
         THEN conjunct2, THEN conjunct2, THEN conjunct1])
  then have e2: "resolve_expr [] ?e2 = Inl ResolutionError" using b2 f2 by blast
  have s': "resolve_branch_target ?site (VarIndex 2) = Inr (2, \<lparr>label_type = WABT_LABEL_TYPE_BLOCK, label_name = Some ''$a'', label_sig = []\<rparr>)"
    using s by simp
  have old_part: "resolve_branch_target
     [\<lparr>label_type = WABT_LABEL_TYPE_LOOP, label_name = None, label_sig = []\<rparr>,
      \<lparr>label_type = WABT_LABEL_TYPE_BLOCK, label_name = Some ''$a'', label_sig = []\<rparr>,
      \<lparr>label_type = WABT_LABEL_TYPE_BLOCK, label_name = Some ''$a'', label_sig = [WABT_TYPE_I32]\<rparr>]
     (VarIndex 2) =
   Inr (2, \<lparr>label_type = WABT_LABEL_TYPE_BLOCK, label_name = Some ''$a'', label_sig = [WABT_TYPE_I32]\<rparr>) \<and>
   resolve_branch_target
     [\<lparr>label_type = WABT_LABEL_TYPE_LOOP, label_name = None, label_sig = []\<rparr>,
      \<lparr>label_type = WABT_LABEL_TYPE_BLOCK, label_name = Some ''$a'', label_sig = []\<rparr>,
      \<lparr>label_type = WABT_LABEL_TYPE_BLOCK, label_name = Some ''$a'', label_sig = [WABT_TYPE_I32]\<rparr>]
     (VarIndex 3) = Inl ResolutionError \<and>
   resolve_branch_target
     [\<lparr>label_type = WABT_LABEL_TYPE_LOOP, label_name = None, label_sig = []\<rparr>,
      \<lparr>label_type = WABT_LABEL_TYPE_BLOCK, label_name = Some ''$a'', label_sig = []\<rparr>,
      \<lparr>label_type = WABT_LABEL_TYPE_BLOCK, label_name = Some ''$a'', label_sig = [WABT_TYPE_I32]\<rparr>]
     (VarName ''$a'') =
   Inr (1, \<lparr>label_type = WABT_LABEL_TYPE_BLOCK, label_name = Some ''$a'', label_sig = []\<rparr>) \<and>
   resolve_branch_target
     [\<lparr>label_type = WABT_LABEL_TYPE_LOOP, label_name = None, label_sig = []\<rparr>,
      \<lparr>label_type = WABT_LABEL_TYPE_BLOCK, label_name = Some ''$a'', label_sig = []\<rparr>,
      \<lparr>label_type = WABT_LABEL_TYPE_BLOCK, label_name = Some ''$a'', label_sig = [WABT_TYPE_I32]\<rparr>]
     (VarName ''$b'') = Inl ResolutionError"
    using r2 r3 ra rb by simp
  show ?thesis
    by (intro conjI old_part [THEN conjunct1] old_part [THEN conjunct2, THEN conjunct1]
        old_part [THEN conjunct2, THEN conjunct2, THEN conjunct1]
        old_part [THEN conjunct2, THEN conjunct2, THEN conjunct2] r b s' b2 f2 e2)
qed

end
